theory Spec2Isabelle
  imports Main "HOL-Library.Word" "HOL-Library.AList"
begin

section \<open>JavaScript strings and the built-ins the module calls\<close>

text \<open>
  A JavaScript string is a sequence of UTF-16 code units, so the model uses lists of
  16-bit words. \<open>js\<close> embeds an ASCII literal of the source.
\<close>

type_synonym jsstring = "16 word list"

definition js :: "string \<Rightarrow> jsstring" where
  "js s = map of_char s"

text \<open>
  \<open>String.prototype.trim\<close> removes leading and trailing WhiteSpace and LineTerminator
  code points (ECMA-262, 22.1.3.32): TAB, LF, VT, FF, CR, SP, NBSP, U+1680, U+2000 to U+200A,
  U+2028, U+2029, U+202F, U+205F, U+3000 and U+FEFF.
\<close>

definition isStrWhiteSpaceChar :: "16 word \<Rightarrow> bool" where
  "isStrWhiteSpaceChar c \<longleftrightarrow>
     c = 0x09 \<or> c = 0x0A \<or> c = 0x0B \<or> c = 0x0C \<or> c = 0x0D \<or> c = 0x20 \<or> c = 0xA0 \<or>
     c = 0x1680 \<or> (0x2000 \<le> c \<and> c \<le> 0x200A) \<or> c = 0x2028 \<or> c = 0x2029 \<or>
     c = 0x202F \<or> c = 0x205F \<or> c = 0x3000 \<or> c = 0xFEFF"

definition trim :: "jsstring \<Rightarrow> jsstring" where
  "trim s = rev (dropWhile isStrWhiteSpaceChar (rev (dropWhile isStrWhiteSpaceChar s)))"

text \<open>
  \<open>isNaN(Number(s))\<close> for a string \<open>s\<close>: \<open>Number\<close> applies StringToNumber
  (ECMA-262, 7.1.4.1.1), which yields NaN exactly when \<open>s\<close> does not match the grammar
  StringNumericLiteral; every string that matches has a numeric value (possibly an
  infinity), which \<open>isNaN\<close> rejects. The recogniser below follows the grammar:
  optional white space around nothing, or around a signed decimal literal (digits with
  optional fraction and exponent, or \<open>Infinity\<close>) or an unsigned binary, octal or
  hexadecimal integer literal.
\<close>

definition isDecimalDigit :: "16 word \<Rightarrow> bool" where
  "isDecimalDigit c \<longleftrightarrow> 0x30 \<le> c \<and> c \<le> 0x39"

definition isBinaryDigit :: "16 word \<Rightarrow> bool" where
  "isBinaryDigit c \<longleftrightarrow> c = 0x30 \<or> c = 0x31"

definition isOctalDigit :: "16 word \<Rightarrow> bool" where
  "isOctalDigit c \<longleftrightarrow> 0x30 \<le> c \<and> c \<le> 0x37"

definition isHexDigit :: "16 word \<Rightarrow> bool" where
  "isHexDigit c \<longleftrightarrow>
     (0x30 \<le> c \<and> c \<le> 0x39) \<or> (0x41 \<le> c \<and> c \<le> 0x46) \<or> (0x61 \<le> c \<and> c \<le> 0x66)"

definition isDigits :: "(16 word \<Rightarrow> bool) \<Rightarrow> jsstring \<Rightarrow> bool" where
  "isDigits d s \<longleftrightarrow> s \<noteq> [] \<and> list_all d s"

definition isSignedInteger :: "jsstring \<Rightarrow> bool" where
  "isSignedInteger s =
     (case s of
        [] \<Rightarrow> False
      | c # cs \<Rightarrow> if c = 0x2B \<or> c = 0x2D then isDigits isDecimalDigit cs
                 else isDigits isDecimalDigit s)"

definition isExponentPartOpt :: "jsstring \<Rightarrow> bool" where
  "isExponentPartOpt s =
     (case s of
        [] \<Rightarrow> True
      | c # cs \<Rightarrow> (c = 0x65 \<or> c = 0x45) \<and> isSignedInteger cs)"

definition isStrUnsignedDecimalLiteral :: "jsstring \<Rightarrow> bool" where
  "isStrUnsignedDecimalLiteral s =
     (s = js ''Infinity'' \<or>
      (let ds = takeWhile isDecimalDigit s; r = dropWhile isDecimalDigit s in
       if ds \<noteq> [] then
         (case r of
            [] \<Rightarrow> True
          | c # cs \<Rightarrow> if c = 0x2E then isExponentPartOpt (dropWhile isDecimalDigit cs)
                     else isExponentPartOpt r)
       else
         (case r of
            [] \<Rightarrow> False
          | c # cs \<Rightarrow> c = 0x2E \<and> takeWhile isDecimalDigit cs \<noteq> [] \<and>
                       isExponentPartOpt (dropWhile isDecimalDigit cs))))"

definition isStrDecimalLiteral :: "jsstring \<Rightarrow> bool" where
  "isStrDecimalLiteral s =
     (case s of
        [] \<Rightarrow> False
      | c # cs \<Rightarrow> if c = 0x2B \<or> c = 0x2D then isStrUnsignedDecimalLiteral cs
                 else isStrUnsignedDecimalLiteral s)"

definition isNonDecimalIntegerLiteral :: "jsstring \<Rightarrow> bool" where
  "isNonDecimalIntegerLiteral s =
     (case s of
        z # p # ds \<Rightarrow>
          z = 0x30 \<and>
          ((p = 0x62 \<or> p = 0x42) \<and> isDigits isBinaryDigit ds \<or>
           (p = 0x6F \<or> p = 0x4F) \<and> isDigits isOctalDigit ds \<or>
           (p = 0x78 \<or> p = 0x58) \<and> isDigits isHexDigit ds)
      | _ \<Rightarrow> False)"

definition isStringNumericLiteral :: "jsstring \<Rightarrow> bool" where
  "isStringNumericLiteral s =
     (let t = trim s in t = [] \<or> isStrDecimalLiteral t \<or> isNonDecimalIntegerLiteral t)"

definition isNaN_Number :: "jsstring \<Rightarrow> bool" where
  "isNaN_Number s \<longleftrightarrow> \<not> isStringNumericLiteral s"

text \<open>
  Exceptions. \<open>Error\<close> carries the message of a \<open>new Error(...)\<close> of the module;
  \<open>SyntaxError\<close>, \<open>TypeError\<close> and \<open>URIError\<close> are the classes the built-ins throw
  (\<open>body.json()\<close>, property access on \<open>undefined\<close> or \<open>null\<close>, \<open>encodeURIComponent\<close>);
  \<open>NetworkError\<close> stands for any rejection of the HTTP client itself.
\<close>

datatype error =
    Error jsstring
  | SyntaxError
  | TypeError
  | URIError
  | NetworkError jsstring

text \<open>
  \<open>encodeURIComponent\<close> (ECMA-262, 19.2.6.4 with Encode, 19.2.6.5): a code unit of the
  unreserved set is copied; any other code point is written as the percent-escaped octets
  of its UTF-8 encoding, upper-case hexadecimal; an unpaired surrogate throws URIError.
\<close>

definition isUnescaped :: "16 word \<Rightarrow> bool" where
  "isUnescaped c \<longleftrightarrow>
     (0x41 \<le> c \<and> c \<le> 0x5A) \<or> (0x61 \<le> c \<and> c \<le> 0x7A) \<or> (0x30 \<le> c \<and> c \<le> 0x39) \<or>
     c = 0x2D \<or> c = 0x5F \<or> c = 0x2E \<or> c = 0x21 \<or> c = 0x7E \<or> c = 0x2A \<or> c = 0x27 \<or>
     c = 0x28 \<or> c = 0x29"

definition isLeadingSurrogate :: "16 word \<Rightarrow> bool" where
  "isLeadingSurrogate c \<longleftrightarrow> 0xD800 \<le> c \<and> c \<le> 0xDBFF"

definition isTrailingSurrogate :: "16 word \<Rightarrow> bool" where
  "isTrailingSurrogate c \<longleftrightarrow> 0xDC00 \<le> c \<and> c \<le> 0xDFFF"

definition surrogatePairToCodePoint :: "16 word \<Rightarrow> 16 word \<Rightarrow> nat" where
  "surrogatePairToCodePoint lead trail =
     (unat lead - 0xD800) * 0x400 + (unat trail - 0xDC00) + 0x10000"

definition utf8 :: "nat \<Rightarrow> nat list" where
  "utf8 cp =
     (if cp < 0x80 then [cp]
      else if cp < 0x800 then [0xC0 + cp div 0x40, 0x80 + cp mod 0x40]
      else if cp < 0x10000 then
        [0xE0 + cp div 0x1000, 0x80 + (cp div 0x40) mod 0x40, 0x80 + cp mod 0x40]
      else
        [0xF0 + cp div 0x40000, 0x80 + (cp div 0x1000) mod 0x40,
         0x80 + (cp div 0x40) mod 0x40, 0x80 + cp mod 0x40])"

definition hexDigit :: "nat \<Rightarrow> 16 word" where
  "hexDigit n = (if n < 10 then 0x30 + of_nat n else 0x41 + of_nat (n - 10))"

definition percentEscape :: "nat list \<Rightarrow> jsstring" where
  "percentEscape octets = concat (map (\<lambda>b. [0x25, hexDigit (b div 16), hexDigit (b mod 16)]) octets)"

fun encodeURIComponent :: "jsstring \<Rightarrow> error + jsstring" where
  "encodeURIComponent [] = Inr []"
| "encodeURIComponent [c] =
     (if isUnescaped c then Inr [c]
      else if isLeadingSurrogate c \<or> isTrailingSurrogate c then Inl URIError
      else Inr (percentEscape (utf8 (unat c))))"
| "encodeURIComponent (c # d # cs) =
     (if isUnescaped c then
        (case encodeURIComponent (d # cs) of Inl e \<Rightarrow> Inl e | Inr r \<Rightarrow> Inr (c # r))
      else if isTrailingSurrogate c then Inl URIError
      else if isLeadingSurrogate c then
        (if isTrailingSurrogate d then
           (case encodeURIComponent cs of
              Inl e \<Rightarrow> Inl e
            | Inr r \<Rightarrow> Inr (percentEscape (utf8 (surrogatePairToCodePoint c d)) @ r))
         else Inl URIError)
      else
        (case encodeURIComponent (d # cs) of
           Inl e \<Rightarrow> Inl e
         | Inr r \<Rightarrow> Inr (percentEscape (utf8 (unat c)) @ r)))"

text \<open>
  Template literals render a number with \<open>Number::toString\<close>. The numbers the module
  interpolates are HTTP status codes, epoch times and season numbers; the model takes them
  as integers and renders them in decimal, which is what JavaScript prints for every
  integer of magnitude below \<open>10\<^sup>2\<^sup>1\<close> (and for the zero of either sign).
\<close>

fun natToString :: "nat \<Rightarrow> jsstring" where
  "natToString n =
     (if n < 10 then [0x30 + of_nat n]
      else natToString (n div 10) @ [0x30 + of_nat (n mod 10)])"

declare natToString.simps [simp del]

definition numberToString :: "int \<Rightarrow> jsstring" where
  "numberToString i = (if i < 0 then 0x2D # natToString (nat (- i)) else natToString (nat i))"

section \<open>Enumerations and message constants\<close>

text \<open>
  The string enums of the module. At run time a platform is whatever string the caller
  passes, so a platform is a \<open>jsstring\<close> and the enum gives the named values.
\<close>

definition platforms_All :: jsstring where "platforms_All = js ''all''"
definition platforms_Activision :: jsstring where "platforms_Activision = js ''acti''"
definition platforms_Battlenet :: jsstring where "platforms_Battlenet = js ''battle''"
definition platforms_PSN :: jsstring where "platforms_PSN = js ''psn''"
definition platforms_Steam :: jsstring where "platforms_Steam = js ''steam''"
definition platforms_Uno :: jsstring where "platforms_Uno = js ''uno''"
definition platforms_XBOX :: jsstring where "platforms_XBOX = js ''xbl''"
definition platforms_ios :: jsstring where "platforms_ios = js ''ios''"
definition platforms_NULL :: jsstring where "platforms_NULL = js ''_''"

text \<open>\<open>Object.values(platforms)\<close>, in declaration order.\<close>

definition platforms_values :: "jsstring list" where
  "platforms_values =
     [platforms_All, platforms_Activision, platforms_Battlenet, platforms_PSN,
      platforms_Steam, platforms_Uno, platforms_XBOX, platforms_ios, platforms_NULL]"

definition games_ModernWarfare :: jsstring where "games_ModernWarfare = js ''mw''"
definition games_ModernWarfare2 :: jsstring where "games_ModernWarfare2 = js ''mw2''"
definition games_Vanguard :: jsstring where "games_Vanguard = js ''vg''"
definition games_ColdWar :: jsstring where "games_ColdWar = js ''cw''"
definition games_NULL :: jsstring where "games_NULL = js ''_''"

definition telescopeGames_ModernWarfare2 :: jsstring where
  "telescopeGames_ModernWarfare2 = js ''mw2''"
definition telescopeGames_Warzone2 :: jsstring where "telescopeGames_Warzone2 = js ''wz2''"
definition telescopeGames_ModernWarfare3 :: jsstring where
  "telescopeGames_ModernWarfare3 = js ''jup''"
definition telescopeGames_Mobile :: jsstring where "telescopeGames_Mobile = js ''mgl''"

definition modes_Multiplayer :: jsstring where "modes_Multiplayer = js ''mp''"
definition modes_Warzone :: jsstring where "modes_Warzone = js ''wz''"
definition modes_Warzone2 :: jsstring where "modes_Warzone2 = js ''wz2''"
definition modes_NULL :: jsstring where "modes_NULL = js ''_''"

definition telescopeModes_Multiplayer :: jsstring where "telescopeModes_Multiplayer = js ''mp''"
definition telescopeModes_Outbreak :: jsstring where "telescopeModes_Outbreak = js ''ob''"

definition friendActions_Invite :: jsstring where "friendActions_Invite = js ''invite''"
definition friendActions_Uninvite :: jsstring where "friendActions_Uninvite = js ''uninvite''"
definition friendActions_Remove :: jsstring where "friendActions_Remove = js ''remove''"
definition friendActions_Block :: jsstring where "friendActions_Block = js ''block''"
definition friendActions_Unblock :: jsstring where "friendActions_Unblock = js ''unblock''"

text \<open>
  The two messages of \<open>generics\<close>. The apostrophe (0x27), the backquote (0x60) and the
  line feed (0x0A) are written as code units.
\<close>

definition generics_STEAM_UNSUPPORTED :: jsstring where
  "generics_STEAM_UNSUPPORTED =
     js ''Steam platform not supported by this game. Try '' @ [0x60] @ js ''battle'' @ [0x60] @
     js '' instead.''"

definition generics_UNO_NO_NUMERICAL_ID :: jsstring where
  "generics_UNO_NO_NUMERICAL_ID =
     js ''You must use a numerical ID when using the platform '' @ [0x27] @ js ''uno'' @
     [0x27] @ js ''.'' @ [0x0A] @
     js ''If using an Activision ID, please use the platform '' @ [0x27] @ js ''acti'' @
     [0x27] @ js ''.''"

text \<open>
  \<open>JSON.stringify(Object.values(platforms), null, 2)\<close>: one quoted value per line,
  indented by two spaces, between brackets. No value needs escaping.
\<close>

fun joinWith :: "jsstring \<Rightarrow> jsstring list \<Rightarrow> jsstring" where
  "joinWith sep [] = []"
| "joinWith sep [x] = x"
| "joinWith sep (x # y # ys) = x @ sep @ joinWith sep (y # ys)"

definition stringifyValues :: "jsstring list \<Rightarrow> jsstring" where
  "stringifyValues vs =
     js ''['' @ [0x0A] @
     joinWith (js '','' @ [0x0A]) (map (\<lambda>v. js ''  '' @ [0x22] @ v @ [0x22]) vs) @
     [0x0A] @ js '']''"

definition invalidPlatformMessage :: "jsstring \<Rightarrow> jsstring" where
  "invalidPlatformMessage plat =
     js ''Platform '' @ [0x27] @ plat @ [0x27] @ js '' is not valid.'' @ [0x0A] @
     js ''Try one of the following:'' @ [0x0A] @ stringifyValues platforms_values"

section \<open>Identity and platform resolution\<close>

definition cleanClientName :: "jsstring \<Rightarrow> error + jsstring" where
  "cleanClientName g = encodeURIComponent g"

definition handleLookupType :: "jsstring \<Rightarrow> jsstring" where
  "handleLookupType plat = (if plat = platforms_Uno then js ''id'' else js ''gamer'')"

text \<open>
  \<open>checkForValidPlatform(platform, gamertag?)\<close> returns nothing or throws. The optional
  gamertag is an option; \<open>gamertag && ...\<close> holds for a present, non-empty string.
\<close>

definition checkForValidPlatform :: "jsstring \<Rightarrow> jsstring option \<Rightarrow> error + unit" where
  "checkForValidPlatform plat g =
     (if plat \<notin> set platforms_values then Inl (Error (invalidPlatformMessage plat))
      else if (case g of None \<Rightarrow> False | Some h \<Rightarrow> h \<noteq> [] \<and> isNaN_Number h) \<and>
              plat = platforms_Uno
        then Inl (Error generics_UNO_NO_NUMERICAL_ID)
      else Inr ())"

text \<open>The object \<open>{ gamertag, _platform, lookupType }\<close> that resolution returns.\<close>

record identity =
  r_gamertag :: jsstring
  r_platform :: jsstring
  r_lookupType :: jsstring

text \<open>
  \<open>mapGamertagToPlatform(gamertag, platform, steamSupport = false)\<close>. A caller that
  omits the third argument passes \<open>False\<close>.
\<close>

definition mapGamertagToPlatform :: "jsstring \<Rightarrow> jsstring \<Rightarrow> bool \<Rightarrow> error + identity" where
  "mapGamertagToPlatform g plat steamSupport =
     (case checkForValidPlatform plat (Some g) of
        Inl e \<Rightarrow> Inl e
      | Inr _ \<Rightarrow>
          let lookup = handleLookupType plat in
          if \<not> steamSupport \<and> plat = platforms_Steam then Inl (Error generics_STEAM_UNSUPPORTED)
          else
            (case (if (plat = platforms_Battlenet \<or> plat = platforms_Activision \<or>
                       plat = platforms_Uno) \<and> g \<noteq> []
                   then cleanClientName g else Inr g) of
               Inl e \<Rightarrow> Inl e
             | Inr g' \<Rightarrow>
                 Inr \<lparr> r_gamertag = g',
                       r_platform =
                         (if plat = platforms_Uno \<or> plat = platforms_Activision
                          then platforms_Uno else plat),
                       r_lookupType = lookup \<rparr>))"

section \<open>Endpoint templating\<close>

text \<open>
  Every field of \<open>Endpoints\<close> may be \<open>undefined\<close> (the constructor's parameters are
  optional); a template literal renders \<open>undefined\<close> as that word.
\<close>

record Endpoints =
  game :: "jsstring option"
  gamertag :: "jsstring option"
  platform :: "jsstring option"
  lookupType :: "jsstring option"
  mode :: "jsstring option"

definition tpl :: "jsstring option \<Rightarrow> jsstring" where
  "tpl v = (case v of None \<Rightarrow> js ''undefined'' | Some s \<Rightarrow> s)"

text \<open>\<open>new Endpoints(game, gamertag, platform, mode, lookupType)\<close>, all arguments given.\<close>

definition new_Endpoints ::
    "jsstring \<Rightarrow> jsstring \<Rightarrow> jsstring \<Rightarrow> jsstring \<Rightarrow> jsstring \<Rightarrow> Endpoints" where
  "new_Endpoints g gt plat m lt =
     \<lparr> game = Some g, gamertag = Some gt, platform = Some plat, lookupType = Some lt,
       mode = Some m \<rparr>"

definition Endpoints_fullData :: "Endpoints \<Rightarrow> jsstring" where
  "Endpoints_fullData e =
     js ''/stats/cod/v1/title/'' @ tpl (game e) @ js ''/platform/'' @ tpl (platform e) @
     js ''/'' @ tpl (lookupType e) @ js ''/'' @ tpl (gamertag e) @ js ''/profile/type/'' @
     tpl (mode e)"

definition Endpoints_combatHistory :: "Endpoints \<Rightarrow> jsstring" where
  "Endpoints_combatHistory e =
     js ''/crm/cod/v2/title/'' @ tpl (game e) @ js ''/platform/'' @ tpl (platform e) @
     js ''/'' @ tpl (lookupType e) @ js ''/'' @ tpl (gamertag e) @ js ''/matches/'' @
     tpl (mode e) @ js ''/start/0/end/0/details''"

definition Endpoints_combatHistoryWithDate :: "Endpoints \<Rightarrow> int \<Rightarrow> int \<Rightarrow> jsstring" where
  "Endpoints_combatHistoryWithDate e startTime endTime =
     js ''/crm/cod/v2/title/'' @ tpl (game e) @ js ''/platform/'' @ tpl (platform e) @
     js ''/'' @ tpl (lookupType e) @ js ''/'' @ tpl (gamertag e) @ js ''/matches/'' @
     tpl (mode e) @ js ''/start/'' @ numberToString startTime @ js ''/end/'' @
     numberToString endTime @ js ''/details''"

definition Endpoints_breakdown :: "Endpoints \<Rightarrow> jsstring" where
  "Endpoints_breakdown e =
     js ''/crm/cod/v2/title/'' @ tpl (game e) @ js ''/platform/'' @ tpl (platform e) @
     js ''/'' @ tpl (lookupType e) @ js ''/'' @ tpl (gamertag e) @ js ''/matches/'' @
     tpl (mode e) @ js ''/start/0/end/0''"

definition Endpoints_breakdownWithDate :: "Endpoints \<Rightarrow> int \<Rightarrow> int \<Rightarrow> jsstring" where
  "Endpoints_breakdownWithDate e startTime endTime =
     js ''/crm/cod/v2/title/'' @ tpl (game e) @ js ''/platform/'' @ tpl (platform e) @
     js ''/'' @ tpl (lookupType e) @ js ''/'' @ tpl (gamertag e) @ js ''/matches/'' @
     tpl (mode e) @ js ''/start/'' @ numberToString startTime @ js ''/end/'' @
     numberToString endTime"

definition Endpoints_matchInfo :: "Endpoints \<Rightarrow> jsstring \<Rightarrow> jsstring" where
  "Endpoints_matchInfo e matchId =
     js ''/crm/cod/v2/title/'' @ tpl (game e) @ js ''/platform/'' @ tpl (platform e) @
     js ''/fullMatch/wz/'' @ matchId @ js ''/en''"

definition Endpoints_seasonLoot :: "Endpoints \<Rightarrow> jsstring" where
  "Endpoints_seasonLoot e =
     js ''/loot/title/'' @ tpl (game e) @ js ''/platform/'' @ tpl (platform e) @ js ''/'' @
     tpl (lookupType e) @ js ''/'' @ tpl (gamertag e) @ js ''/status/en''"

definition Endpoints_mapList :: "Endpoints \<Rightarrow> jsstring" where
  "Endpoints_mapList e =
     js ''/ce/v1/title/'' @ tpl (game e) @ js ''/platform/'' @ tpl (platform e) @
     js ''/gameType/'' @ tpl (mode e) @ js ''/communityMapData/availability''"

definition Endpoints_purchasableItems :: "Endpoints \<Rightarrow> jsstring \<Rightarrow> jsstring" where
  "Endpoints_purchasableItems e gameId =
     js ''/inventory/v1/title/'' @ gameId @ js ''/platform/psn/purchasable/public/en''"

definition Endpoints_bundleInformation :: "Endpoints \<Rightarrow> jsstring \<Rightarrow> jsstring \<Rightarrow> jsstring" where
  "Endpoints_bundleInformation e gameId bundleId =
     js ''/inventory/v1/title/'' @ gameId @ js ''/bundle/'' @ bundleId @ js ''/en''"

definition Endpoints_battlePassLoot :: "Endpoints \<Rightarrow> int \<Rightarrow> jsstring" where
  "Endpoints_battlePassLoot e season =
     js ''/loot/title/'' @ tpl (game e) @ js ''/platform/'' @ tpl (platform e) @
     js ''/list/loot_season_'' @ numberToString season @ js ''/en''"

definition Endpoints_friendFeed :: "Endpoints \<Rightarrow> jsstring" where
  "Endpoints_friendFeed e =
     js ''/userfeed/v1/friendFeed/platform/'' @ tpl (platform e) @ js ''/'' @
     tpl (lookupType e) @ js ''/'' @ tpl (gamertag e) @ js ''/friendFeedEvents/en''"

definition Endpoints_codPoints :: "Endpoints \<Rightarrow> jsstring" where
  "Endpoints_codPoints e =
     js ''/inventory/v1/title/mw/platform/'' @ tpl (platform e) @ js ''/'' @
     tpl (lookupType e) @ js ''/'' @ tpl (gamertag e) @ js ''/currency''"

definition Endpoints_connectedAccounts :: "Endpoints \<Rightarrow> jsstring" where
  "Endpoints_connectedAccounts e =
     js ''/crm/cod/v2/accounts/platform/'' @ tpl (platform e) @ js ''/'' @
     tpl (lookupType e) @ js ''/'' @ tpl (gamertag e)"

definition Endpoints_settings :: "Endpoints \<Rightarrow> jsstring" where
  "Endpoints_settings e =
     js ''/preferences/v1/platform/'' @ tpl (platform e) @ js ''/'' @ tpl (lookupType e) @
     js ''/'' @ tpl (gamertag e) @ js ''/list''"

definition Endpoints_friendAction :: "Endpoints \<Rightarrow> jsstring \<Rightarrow> jsstring" where
  "Endpoints_friendAction e action =
     js ''/codfriends/v1/'' @ action @ js ''/'' @ tpl (platform e) @ js ''/'' @
     tpl (lookupType e) @ js ''/'' @ tpl (gamertag e)"

definition Endpoints_search :: "Endpoints \<Rightarrow> jsstring" where
  "Endpoints_search e =
     js ''/crm/cod/v2/platform/'' @ tpl (platform e) @ js ''/username/'' @ tpl (gamertag e) @
     js ''/search''"

record TelescopeEndpoints =
  t_game :: "jsstring option"
  t_unoId :: "jsstring option"
  t_mode :: "jsstring option"

definition new_TelescopeEndpoints :: "jsstring \<Rightarrow> jsstring \<Rightarrow> jsstring \<Rightarrow> TelescopeEndpoints" where
  "new_TelescopeEndpoints g u m = \<lparr> t_game = Some g, t_unoId = Some u, t_mode = Some m \<rparr>"

definition TelescopeEndpoints_lifeTime :: "TelescopeEndpoints \<Rightarrow> jsstring" where
  "TelescopeEndpoints_lifeTime e =
     js ''/cr/v1/title/'' @ tpl (t_game e) @ js ''/lifetime?language=english&unoId='' @
     tpl (t_unoId e)"

definition TelescopeEndpoints_matches :: "TelescopeEndpoints \<Rightarrow> jsstring" where
  "TelescopeEndpoints_matches e =
     js ''/cr/v1/title/'' @ tpl (t_game e) @ js ''/matches?language=english&unoId='' @
     tpl (t_unoId e)"

definition TelescopeEndpoints_match :: "TelescopeEndpoints \<Rightarrow> jsstring \<Rightarrow> jsstring" where
  "TelescopeEndpoints_match e matchId =
     js ''/cr/v1/title/'' @ tpl (t_game e) @ js ''/match/'' @ matchId @
     js ''?language=english&unoId='' @ tpl (t_unoId e)"

section \<open>Session state, the network and request dispatch\<close>

text \<open>
  A parsed JSON value. A number is kept as the text \<open>Number::toString\<close> gives for it,
  since the module never computes with the numbers of a response. A value that may be
  \<open>undefined\<close> is a \<open>json option\<close>.
\<close>

datatype json =
    JNull
  | JBool bool
  | JNum jsstring
  | JStr jsstring
  | JArr "json list"
  | JObj "(jsstring \<times> json) list"

text \<open>
  Reading a property that no prototype defines (\<open>umbrella\<close>, \<open>accessToken\<close>,
  \<open>error\<close>, \<open>msg\<close>): \<open>undefined\<close> and \<open>null\<close> throw a TypeError, an object gives its
  own property or \<open>undefined\<close>, every other value gives \<open>undefined\<close>.
\<close>

definition getProp :: "json option \<Rightarrow> jsstring \<Rightarrow> error + json option" where
  "getProp v k =
     (case v of
        None \<Rightarrow> Inl TypeError
      | Some JNull \<Rightarrow> Inl TypeError
      | Some (JObj kvs) \<Rightarrow> Inr (map_of kvs k)
      | Some _ \<Rightarrow> Inr None)"

text \<open>
  \<open>ToString\<close> of a parsed JSON value inside a template literal. An array joins its
  elements with commas, \<open>null\<close> elements giving the empty string; an object gives
  \<open>[object Object]\<close> unless it has an own property \<open>toString\<close>, which is then not
  callable and makes the conversion throw a TypeError.
\<close>

fun toStringJson :: "json \<Rightarrow> error + jsstring"
  and joinJson :: "json list \<Rightarrow> error + jsstring" where
  "toStringJson JNull = Inr (js ''null'')"
| "toStringJson (JBool b) = Inr (if b then js ''true'' else js ''false'')"
| "toStringJson (JNum n) = Inr n"
| "toStringJson (JStr s) = Inr s"
| "toStringJson (JArr xs) = joinJson xs"
| "toStringJson (JObj kvs) =
     (if js ''toString'' \<in> set (map fst kvs) then Inl TypeError
      else Inr (js ''[object Object]''))"
| "joinJson [] = Inr []"
| "joinJson (x # xs) =
     (case (if x = JNull then Inr [] else toStringJson x) of
        Inl e \<Rightarrow> Inl e
      | Inr a \<Rightarrow>
          if xs = [] then Inr a
          else (case joinJson xs of Inl e \<Rightarrow> Inl e | Inr b \<Rightarrow> Inr (a @ js '','' @ b)))"

definition toStringValue :: "json option \<Rightarrow> error + jsstring" where
  "toStringValue v = (case v of None \<Rightarrow> Inr (js ''undefined'') | Some j \<Rightarrow> toStringJson j)"

text \<open>
  A header object is an association list in property order; assigning a property is
  \<open>AList.update\<close>, which overwrites in place or appends.
\<close>

type_synonym headers = "(jsstring \<times> jsstring) list"

datatype http_method = GET | POST

text \<open>
  The body of a request: a given text, or \<open>JSON.stringify\<close> of a value (kept as the
  value).
\<close>

datatype payload = Text jsstring | Stringified json

record request =
  req_url :: jsstring
  req_method :: http_method
  req_headers :: headers
  req_body :: "payload option"

text \<open>
  What the HTTP client resolves to: the status code and the result of \<open>body.json()\<close>,
  \<open>None\<close> when the body is not valid JSON (the call then throws a SyntaxError). The
  network is a parameter: it answers a request with a response or rejects.
\<close>

record response =
  statusCode :: nat
  body :: "json option"

type_synonym network = "request \<Rightarrow> error + response"

text \<open>
  The observable effects, in order: a request handed to the HTTP client, and a call of
  \<open>body.json()\<close>. Console output is not modelled.
\<close>

datatype effect = NetworkCall request | BodyJson

text \<open>The module's mutable variables, and the trace of effects so far.\<close>

record session =
  baseHeaders :: headers
  baseTelescopeHeaders :: headers
  basePostHeaders :: headers
  baseSsoToken :: jsstring
  loggedIn :: bool
  telescopeUnoToken :: "json option"
  debugMode :: bool
  trace :: "effect list"

definition userAgent :: jsstring where
  "userAgent =
     js ''Mozilla/5.0 (Windows NT 10.0; Win64; x64) AppleWebKit/537.36 (KHTML, like Gecko) Chrome/74.0.3729.169 Safari/537.36''"

definition baseCookie :: jsstring where
  "baseCookie = js ''new_SiteId=cod;ACT_SSO_LOCALE=en_US;country=US;''"

definition baseUrl :: jsstring where "baseUrl = js ''https://profile.callofduty.com''"
definition apiPath :: jsstring where "apiPath = js ''/api/papi-client''"
definition baseTelescopeUrl :: jsstring where
  "baseTelescopeUrl = js ''https://telescope.callofduty.com''"
definition apiTelescopePath :: jsstring where "apiTelescopePath = js ''/api/ts-api''"

definition telescope_login_endpoint :: jsstring where
  "telescope_login_endpoint =
     js ''https://wzm-ios-loginservice.prod.demonware.net/v1/login/uno/?titleID=7100&client=shg-cod-jup-bnet''"

definition init_session :: session where
  "init_session =
     \<lparr> baseHeaders =
         [(js ''content-type'', js ''application/json''),
          (js ''cookie'', baseCookie),
          (js ''user-agent'', userAgent)],
       baseTelescopeHeaders =
         [(js ''accept'', js ''application/json, text/plain, */*''),
          (js ''accept-language'',
           js ''en-GB,en;q=0.9,en-US;q=0.8,fr;q=0.7,nl;q=0.6,et;q=0.5''),
          (js ''cache-control'', js ''no-cache''),
          (js ''pragma'', js ''no-cache''),
          (js ''sec-ch-ua'',
           [0x22] @ js ''Chromium'' @ [0x22] @ js '';v='' @ [0x22] @ js ''118'' @ [0x22] @
           js '', '' @ [0x22] @ js ''Microsoft Edge'' @ [0x22] @ js '';v='' @ [0x22] @
           js ''118'' @ [0x22] @ js '', '' @ [0x22] @ js ''Not=A?Brand'' @ [0x22] @
           js '';v='' @ [0x22] @ js ''99'' @ [0x22]),
          (js ''sec-ch-ua-mobile'', js ''?0''),
          (js ''sec-ch-ua-platform'', [0x22] @ js ''Windows'' @ [0x22]),
          (js ''sec-fetch-dest'', js ''empty''),
          (js ''sec-fetch-mode'', js ''cors''),
          (js ''sec-fetch-site'', js ''same-site'')],
       basePostHeaders =
         [(js ''content-type'', js ''text/plain''),
          (js ''cookie'', baseCookie),
          (js ''user-agent'', userAgent)],
       baseSsoToken = [],
       loggedIn = False,
       telescopeUnoToken = Some (JStr []),
       debugMode = False,
       trace = [] \<rparr>"

definition enableDebugMode :: "session \<Rightarrow> session" where
  "enableDebugMode s = s\<lparr> debugMode := True \<rparr>"

definition disableDebugMode :: "session \<Rightarrow> session" where
  "disableDebugMode s = s\<lparr> debugMode := False \<rparr>"

definition statusMessage :: "nat \<Rightarrow> jsstring" where
  "statusMessage code =
     js ''Received status code: '' @ [0x27] @ natToString code @ [0x27] @
     js ''. Route may be down or not exist.''"

text \<open>
  The part the three dispatchers share after the login check: hand the request to the
  client, throw on a rejection or a status of 500 and above, otherwise return
  \<open>body.json()\<close>.
\<close>

definition dispatch :: "request \<Rightarrow> network \<Rightarrow> session \<Rightarrow> (error + json) \<times> session" where
  "dispatch rq net s =
     (let s1 = s\<lparr> trace := trace s @ [NetworkCall rq] \<rparr> in
      case net rq of
        Inl e \<Rightarrow> (Inl e, s1)
      | Inr resp \<Rightarrow>
          if statusCode resp \<ge> 500 then (Inl (Error (statusMessage (statusCode resp))), s1)
          else
            (let s2 = s1\<lparr> trace := trace s1 @ [BodyJson] \<rparr> in
             case body resp of
               None \<Rightarrow> (Inl SyntaxError, s2)
             | Some j \<Rightarrow> (Inr j, s2)))"

definition sendTelescopeRequest ::
    "jsstring \<Rightarrow> network \<Rightarrow> session \<Rightarrow> (error + json) \<times> session" where
  "sendTelescopeRequest url net s =
     (if \<not> loggedIn s then (Inl (Error (js ''Not Logged In!'')), s)
      else
        (case toStringValue (telescopeUnoToken s) of
           Inl e \<Rightarrow> (Inl e, s)
         | Inr t \<Rightarrow>
             let hs = AList.update (js ''authorization'') (js ''Bearer '' @ t)
                        (baseTelescopeHeaders s);
                 s1 = s\<lparr> baseTelescopeHeaders := hs \<rparr>
             in dispatch \<lparr> req_url = baseTelescopeUrl @ apiTelescopePath @ url,
                           req_method = GET, req_headers = hs, req_body = None \<rparr> net s1))"

definition sendRequest :: "jsstring \<Rightarrow> network \<Rightarrow> session \<Rightarrow> (error + json) \<times> session" where
  "sendRequest url net s =
     (if \<not> loggedIn s then (Inl (Error (js ''Not Logged In.'')), s)
      else dispatch \<lparr> req_url = baseUrl @ apiPath @ url, req_method = GET,
                      req_headers = baseHeaders s, req_body = None \<rparr> net s)"

definition sendPostRequest ::
    "jsstring \<Rightarrow> jsstring \<Rightarrow> network \<Rightarrow> session \<Rightarrow> (error + json) \<times> session" where
  "sendPostRequest url data net s =
     (if \<not> loggedIn s then (Inl (Error (js ''Not Logged In.'')), s)
      else dispatch \<lparr> req_url = baseUrl @ apiPath @ url, req_method = POST,
                      req_headers = basePostHeaders s, req_body = Some (Text data) \<rparr> net s)"

section \<open>The two logins\<close>

definition fakeXSRF :: jsstring where
  "fakeXSRF = js ''68e8b62e-1d9d-4ce1-b93f-cbe5ff31a041''"

definition loginCookie :: "jsstring \<Rightarrow> jsstring" where
  "loginCookie ssoToken =
     baseCookie @ js ''ACT_SSO_COOKIE='' @ ssoToken @ js '';XSRF-TOKEN='' @ fakeXSRF @
     js '';API_CSRF_TOKEN='' @ fakeXSRF @ js '';ACT_SSO_EVENT='' @ [0x22] @
     js ''LOGIN_SUCCESS:1644346543228'' @ [0x22] @
     js '';ACT_SSO_COOKIE_EXPIRY=1645556143194;comid=cod;ssoDevId=63025d09c69f47dfa2b8d5520b5b73e4;tfa_enrollment_seen=true;gtm.custom.bot.flag=human;''"

text \<open>
  The six assignments \<open>login\<close> makes to \<open>baseHeaders\<close>, and again to
  \<open>basePostHeaders\<close>, in the order of the source.
\<close>

definition setLoginHeaders :: "jsstring \<Rightarrow> headers \<Rightarrow> headers" where
  "setLoginHeaders ssoToken h =
     AList.update (js ''cookie'') (loginCookie ssoToken)
       (AList.update (js ''atkn'') ssoToken
         (AList.update (js ''ACT_SSO_COOKIE'') ssoToken
           (AList.update (js ''Atvi-Auth'') ssoToken
             (AList.update (js ''X-CSRF-TOKEN'') fakeXSRF
               (AList.update (js ''X-XSRF-TOKEN'') fakeXSRF h)))))"

definition login :: "jsstring \<Rightarrow> session \<Rightarrow> bool \<times> session" where
  "login ssoToken s =
     (if ssoToken = [] \<or> length (trim ssoToken) \<le> 0 then (False, s)
      else
        (True,
         s\<lparr> baseHeaders := setLoginHeaders ssoToken (baseHeaders s),
            baseSsoToken := ssoToken,
            basePostHeaders := setLoginHeaders ssoToken (basePostHeaders s),
            loggedIn := True \<rparr>))"

definition telescopeLoginBody :: "jsstring \<Rightarrow> jsstring \<Rightarrow> json" where
  "telescopeLoginBody username password =
     JObj [(js ''platform'', JStr (js ''ios'')),
           (js ''hardwareType'', JStr (js ''ios'')),
           (js ''auth'', JObj [(js ''email'', JStr username), (js ''password'', JStr password)]),
           (js ''version'', JNum (js ''1492''))]"

definition telescopeLogin ::
    "jsstring \<Rightarrow> jsstring \<Rightarrow> network \<Rightarrow> session \<Rightarrow> (error + bool) \<times> session" where
  "telescopeLogin username password net s =
     (if username = [] \<or> password = [] then (Inr False, s)
      else
        (let rq = \<lparr> req_url = telescope_login_endpoint, req_method = POST,
                    req_headers = baseHeaders s,
                    req_body = Some (Stringified (telescopeLoginBody username password)) \<rparr>;
             s1 = s\<lparr> trace := trace s @ [NetworkCall rq] \<rparr>
         in
         case net rq of
           Inl e \<Rightarrow> (Inl e, s1)
         | Inr resp \<Rightarrow>
             (let s2 = s1\<lparr> trace := trace s1 @ [BodyJson] \<rparr>;
                  ok = (statusCode resp = 200)
              in
              if statusCode resp = 200 then
                (case body resp of
                   None \<Rightarrow> (Inl SyntaxError, s2)
                 | Some j \<Rightarrow>
                     (case getProp (Some j) (js ''umbrella'') of
                        Inl e \<Rightarrow> (Inl e, s2)
                      | Inr u \<Rightarrow>
                          (case getProp u (js ''accessToken'') of
                             Inl e \<Rightarrow> (Inl e, s2)
                           | Inr unoToken \<Rightarrow>
                               (Inr ok, s2\<lparr> telescopeUnoToken := unoToken, loggedIn := ok \<rparr>))))
              else if statusCode resp = 403 then
                (case body resp of
                   None \<Rightarrow> (Inl SyntaxError, s2)
                 | Some j \<Rightarrow>
                     (case getProp (Some j) (js ''error'') of
                        Inl e \<Rightarrow> (Inl e, s2)
                      | Inr er \<Rightarrow>
                          (case getProp er (js ''msg'') of
                             Inl e \<Rightarrow> (Inl e, s2)
                           | Inr _ \<Rightarrow> (Inr ok, s2\<lparr> loggedIn := ok \<rparr>))))
              else (Inr ok, s1\<lparr> loggedIn := ok \<rparr>))))"

definition Endpoints_eventFeed :: "session \<Rightarrow> Endpoints \<Rightarrow> jsstring" where
  "Endpoints_eventFeed s e = js ''/userfeed/v1/friendFeed/rendered/en/'' @ baseSsoToken s"

definition Endpoints_loggedInIdentities :: "session \<Rightarrow> Endpoints \<Rightarrow> jsstring" where
  "Endpoints_loggedInIdentities s e = js ''/crm/cod/v2/identities/'' @ baseSsoToken s"

section \<open>Title adapters\<close>

text \<open>
  Every method of a legacy-backed class has one shape: resolve the identity with
  \<open>mapGamertagToPlatform\<close>, construct \<open>Endpoints\<close> from the class's game and mode and
  the resolved identity, build the path and hand it to \<open>sendRequest\<close>. \<open>legacyCall\<close> is
  that shape; each method below instantiates it with the constants of its class.
\<close>

definition legacyCall ::
    "jsstring \<Rightarrow> jsstring \<Rightarrow> (Endpoints \<Rightarrow> jsstring) \<Rightarrow> jsstring \<Rightarrow> jsstring \<Rightarrow> bool \<Rightarrow>
     network \<Rightarrow> session \<Rightarrow> (error + json) \<times> session" where
  "legacyCall g m build gt plat steamSupport net s =
     (case mapGamertagToPlatform gt plat steamSupport of
        Inl e \<Rightarrow> (Inl e, s)
      | Inr i \<Rightarrow>
          sendRequest
            (build (new_Endpoints g (r_gamertag i) (r_platform i) m (r_lookupType i))) net s)"

text \<open>
  A telescope-backed method resolves the id under the platform \<open>uno\<close> with Steam support
  switched on, keeps the resolved handle only, and sends to the telescope backend.
\<close>

definition telescopeCall ::
    "jsstring \<Rightarrow> (TelescopeEndpoints \<Rightarrow> jsstring) \<Rightarrow> jsstring \<Rightarrow>
     network \<Rightarrow> session \<Rightarrow> (error + json) \<times> session" where
  "telescopeCall g build unoId net s =
     (case mapGamertagToPlatform unoId platforms_Uno True of
        Inl e \<Rightarrow> (Inl e, s)
      | Inr i \<Rightarrow>
          sendTelescopeRequest
            (build (new_TelescopeEndpoints g (r_gamertag i) telescopeModes_Multiplayer)) net s)"

subsection \<open>Class WZ\<close>

definition WZ_fullData ::
    "jsstring \<Rightarrow> jsstring \<Rightarrow> network \<Rightarrow> session \<Rightarrow> (error + json) \<times> session" where
  "WZ_fullData gt plat =
     legacyCall games_ModernWarfare modes_Warzone Endpoints_fullData gt plat False"

definition WZ_combatHistory ::
    "jsstring \<Rightarrow> jsstring \<Rightarrow> network \<Rightarrow> session \<Rightarrow> (error + json) \<times> session" where
  "WZ_combatHistory gt plat =
     legacyCall games_ModernWarfare modes_Warzone Endpoints_combatHistory gt plat False"

definition WZ_combatHistoryWithDate ::
    "jsstring \<Rightarrow> int \<Rightarrow> int \<Rightarrow> jsstring \<Rightarrow> network \<Rightarrow> session \<Rightarrow>
     (error + json) \<times> session" where
  "WZ_combatHistoryWithDate gt startTime endTime plat =
     legacyCall games_ModernWarfare modes_Warzone
       (\<lambda>e. Endpoints_combatHistoryWithDate e startTime endTime) gt plat False"

definition WZ_breakdown ::
    "jsstring \<Rightarrow> jsstring \<Rightarrow> network \<Rightarrow> session \<Rightarrow> (error + json) \<times> session" where
  "WZ_breakdown gt plat =
     legacyCall games_ModernWarfare modes_Warzone Endpoints_breakdown gt plat False"

definition WZ_breakdownWithDate ::
    "jsstring \<Rightarrow> int \<Rightarrow> int \<Rightarrow> jsstring \<Rightarrow> network \<Rightarrow> session \<Rightarrow>
     (error + json) \<times> session" where
  "WZ_breakdownWithDate gt startTime endTime plat =
     legacyCall games_ModernWarfare modes_Warzone
       (\<lambda>e. Endpoints_breakdownWithDate e startTime endTime) gt plat False"

definition WZ_matchInfo ::
    "jsstring \<Rightarrow> jsstring \<Rightarrow> network \<Rightarrow> session \<Rightarrow> (error + json) \<times> session" where
  "WZ_matchInfo matchId plat =
     legacyCall games_ModernWarfare modes_Warzone
       (\<lambda>e. Endpoints_matchInfo e matchId) [] plat False"

subsection \<open>Class MW\<close>

definition MW_fullData ::
    "jsstring \<Rightarrow> jsstring \<Rightarrow> network \<Rightarrow> session \<Rightarrow> (error + json) \<times> session" where
  "MW_fullData gt plat =
     legacyCall games_ModernWarfare modes_Multiplayer Endpoints_fullData gt plat False"

definition MW_combatHistory ::
    "jsstring \<Rightarrow> jsstring \<Rightarrow> network \<Rightarrow> session \<Rightarrow> (error + json) \<times> session" where
  "MW_combatHistory gt plat =
     legacyCall games_ModernWarfare modes_Multiplayer Endpoints_combatHistory gt plat False"

definition MW_combatHistoryWithDate ::
    "jsstring \<Rightarrow> int \<Rightarrow> int \<Rightarrow> jsstring \<Rightarrow> network \<Rightarrow> session \<Rightarrow>
     (error + json) \<times> session" where
  "MW_combatHistoryWithDate gt startTime endTime plat =
     legacyCall games_ModernWarfare modes_Multiplayer
       (\<lambda>e. Endpoints_combatHistoryWithDate e startTime endTime) gt plat False"

definition MW_breakdown ::
    "jsstring \<Rightarrow> jsstring \<Rightarrow> network \<Rightarrow> session \<Rightarrow> (error + json) \<times> session" where
  "MW_breakdown gt plat =
     legacyCall games_ModernWarfare modes_Multiplayer Endpoints_breakdown gt plat False"

definition MW_breakdownWithDate ::
    "jsstring \<Rightarrow> int \<Rightarrow> int \<Rightarrow> jsstring \<Rightarrow> network \<Rightarrow> session \<Rightarrow>
     (error + json) \<times> session" where
  "MW_breakdownWithDate gt startTime endTime plat =
     legacyCall games_ModernWarfare modes_Multiplayer
       (\<lambda>e. Endpoints_breakdownWithDate e startTime endTime) gt plat False"

definition MW_matchInfo ::
    "jsstring \<Rightarrow> jsstring \<Rightarrow> network \<Rightarrow> session \<Rightarrow> (error + json) \<times> session" where
  "MW_matchInfo matchId plat =
     legacyCall games_ModernWarfare modes_Multiplayer
       (\<lambda>e. Endpoints_matchInfo e matchId) [] plat False"

definition MW_seasonloot ::
    "jsstring \<Rightarrow> jsstring \<Rightarrow> network \<Rightarrow> session \<Rightarrow> (error + json) \<times> session" where
  "MW_seasonloot gt plat =
     legacyCall games_ModernWarfare modes_Multiplayer Endpoints_seasonLoot gt plat False"

definition MW_mapList :: "jsstring \<Rightarrow> network \<Rightarrow> session \<Rightarrow> (error + json) \<times> session" where
  "MW_mapList plat =
     legacyCall games_ModernWarfare modes_Multiplayer Endpoints_mapList [] plat False"

subsection \<open>Classes MW2, WZ2, MW3 and WZM\<close>

definition MW2_fullData :: "jsstring \<Rightarrow> network \<Rightarrow> session \<Rightarrow> (error + json) \<times> session" where
  "MW2_fullData unoId = telescopeCall telescopeGames_ModernWarfare2 TelescopeEndpoints_lifeTime unoId"

definition MW2_matches :: "jsstring \<Rightarrow> network \<Rightarrow> session \<Rightarrow> (error + json) \<times> session" where
  "MW2_matches unoId = telescopeCall telescopeGames_ModernWarfare2 TelescopeEndpoints_matches unoId"

definition MW2_matchInfo ::
    "jsstring \<Rightarrow> jsstring \<Rightarrow> network \<Rightarrow> session \<Rightarrow> (error + json) \<times> session" where
  "MW2_matchInfo unoId matchId =
     telescopeCall telescopeGames_ModernWarfare2 (\<lambda>e. TelescopeEndpoints_match e matchId) unoId"

definition WZ2_fullData :: "jsstring \<Rightarrow> network \<Rightarrow> session \<Rightarrow> (error + json) \<times> session" where
  "WZ2_fullData unoId = telescopeCall telescopeGames_Warzone2 TelescopeEndpoints_lifeTime unoId"

definition WZ2_matches :: "jsstring \<Rightarrow> network \<Rightarrow> session \<Rightarrow> (error + json) \<times> session" where
  "WZ2_matches unoId = telescopeCall telescopeGames_Warzone2 TelescopeEndpoints_matches unoId"

definition WZ2_matchInfo ::
    "jsstring \<Rightarrow> jsstring \<Rightarrow> network \<Rightarrow> session \<Rightarrow> (error + json) \<times> session" where
  "WZ2_matchInfo unoId matchId =
     telescopeCall telescopeGames_Warzone2 (\<lambda>e. TelescopeEndpoints_match e matchId) unoId"

definition MW3_fullData :: "jsstring \<Rightarrow> network \<Rightarrow> session \<Rightarrow> (error + json) \<times> session" where
  "MW3_fullData unoId = telescopeCall telescopeGames_ModernWarfare3 TelescopeEndpoints_lifeTime unoId"

definition MW3_matches :: "jsstring \<Rightarrow> network \<Rightarrow> session \<Rightarrow> (error + json) \<times> session" where
  "MW3_matches unoId = telescopeCall telescopeGames_ModernWarfare3 TelescopeEndpoints_matches unoId"

definition MW3_matchInfo ::
    "jsstring \<Rightarrow> jsstring \<Rightarrow> network \<Rightarrow> session \<Rightarrow> (error + json) \<times> session" where
  "MW3_matchInfo unoId matchId =
     telescopeCall telescopeGames_ModernWarfare3 (\<lambda>e. TelescopeEndpoints_match e matchId) unoId"

definition WZM_fullData :: "jsstring \<Rightarrow> network \<Rightarrow> session \<Rightarrow> (error + json) \<times> session" where
  "WZM_fullData unoId = telescopeCall telescopeGames_Mobile TelescopeEndpoints_lifeTime unoId"

definition WZM_matches :: "jsstring \<Rightarrow> network \<Rightarrow> session \<Rightarrow> (error + json) \<times> session" where
  "WZM_matches unoId = telescopeCall telescopeGames_Mobile TelescopeEndpoints_matches unoId"

definition WZM_matchInfo ::
    "jsstring \<Rightarrow> jsstring \<Rightarrow> network \<Rightarrow> session \<Rightarrow> (error + json) \<times> session" where
  "WZM_matchInfo unoId matchId =
     telescopeCall telescopeGames_Mobile (\<lambda>e. TelescopeEndpoints_match e matchId) unoId"

subsection \<open>Class CW\<close>

definition CW_fullData ::
    "jsstring \<Rightarrow> jsstring \<Rightarrow> network \<Rightarrow> session \<Rightarrow> (error + json) \<times> session" where
  "CW_fullData gt plat =
     legacyCall games_ColdWar modes_Multiplayer Endpoints_fullData gt plat False"

definition CW_combatHistory ::
    "jsstring \<Rightarrow> jsstring \<Rightarrow> network \<Rightarrow> session \<Rightarrow> (error + json) \<times> session" where
  "CW_combatHistory gt plat =
     legacyCall games_ColdWar modes_Multiplayer Endpoints_combatHistory gt plat False"

definition CW_combatHistoryWithDate ::
    "jsstring \<Rightarrow> int \<Rightarrow> int \<Rightarrow> jsstring \<Rightarrow> network \<Rightarrow> session \<Rightarrow>
     (error + json) \<times> session" where
  "CW_combatHistoryWithDate gt startTime endTime plat =
     legacyCall games_ColdWar modes_Multiplayer
       (\<lambda>e. Endpoints_combatHistoryWithDate e startTime endTime) gt plat False"

definition CW_breakdown ::
    "jsstring \<Rightarrow> jsstring \<Rightarrow> network \<Rightarrow> session \<Rightarrow> (error + json) \<times> session" where
  "CW_breakdown gt plat =
     legacyCall games_ColdWar modes_Multiplayer Endpoints_breakdown gt plat False"

definition CW_breakdownWithDate ::
    "jsstring \<Rightarrow> int \<Rightarrow> int \<Rightarrow> jsstring \<Rightarrow> network \<Rightarrow> session \<Rightarrow>
     (error + json) \<times> session" where
  "CW_breakdownWithDate gt startTime endTime plat =
     legacyCall games_ColdWar modes_Multiplayer
       (\<lambda>e. Endpoints_breakdownWithDate e startTime endTime) gt plat False"

definition CW_seasonloot ::
    "jsstring \<Rightarrow> jsstring \<Rightarrow> network \<Rightarrow> session \<Rightarrow> (error + json) \<times> session" where
  "CW_seasonloot gt plat =
     legacyCall games_ColdWar modes_Multiplayer Endpoints_seasonLoot gt plat False"

definition CW_mapList :: "jsstring \<Rightarrow> network \<Rightarrow> session \<Rightarrow> (error + json) \<times> session" where
  "CW_mapList plat =
     legacyCall games_ColdWar modes_Multiplayer Endpoints_mapList [] plat False"

definition CW_matchInfo ::
    "jsstring \<Rightarrow> jsstring \<Rightarrow> network \<Rightarrow> session \<Rightarrow> (error + json) \<times> session" where
  "CW_matchInfo matchId plat =
     legacyCall games_ColdWar modes_Multiplayer
       (\<lambda>e. Endpoints_matchInfo e matchId) [] plat False"

subsection \<open>Class VG\<close>

definition VG_fullData ::
    "jsstring \<Rightarrow> jsstring \<Rightarrow> network \<Rightarrow> session \<Rightarrow> (error + json) \<times> session" where
  "VG_fullData gt plat =
     legacyCall games_Vanguard modes_Multiplayer Endpoints_fullData gt plat False"

definition VG_combatHistory ::
    "jsstring \<Rightarrow> jsstring \<Rightarrow> network \<Rightarrow> session \<Rightarrow> (error + json) \<times> session" where
  "VG_combatHistory gt plat =
     legacyCall games_Vanguard modes_Multiplayer Endpoints_combatHistory gt plat False"

definition VG_combatHistoryWithDate ::
    "jsstring \<Rightarrow> int \<Rightarrow> int \<Rightarrow> jsstring \<Rightarrow> network \<Rightarrow> session \<Rightarrow>
     (error + json) \<times> session" where
  "VG_combatHistoryWithDate gt startTime endTime plat =
     legacyCall games_Vanguard modes_Multiplayer
       (\<lambda>e. Endpoints_combatHistoryWithDate e startTime endTime) gt plat False"

definition VG_breakdown ::
    "jsstring \<Rightarrow> jsstring \<Rightarrow> network \<Rightarrow> session \<Rightarrow> (error + json) \<times> session" where
  "VG_breakdown gt plat =
     legacyCall games_Vanguard modes_Multiplayer Endpoints_breakdown gt plat False"

definition VG_breakdownWithDate ::
    "jsstring \<Rightarrow> int \<Rightarrow> int \<Rightarrow> jsstring \<Rightarrow> network \<Rightarrow> session \<Rightarrow>
     (error + json) \<times> session" where
  "VG_breakdownWithDate gt startTime endTime plat =
     legacyCall games_Vanguard modes_Multiplayer
       (\<lambda>e. Endpoints_breakdownWithDate e startTime endTime) gt plat False"

definition VG_seasonloot ::
    "jsstring \<Rightarrow> jsstring \<Rightarrow> network \<Rightarrow> session \<Rightarrow> (error + json) \<times> session" where
  "VG_seasonloot gt plat =
     legacyCall games_Vanguard modes_Multiplayer Endpoints_seasonLoot gt plat False"

definition VG_mapList :: "jsstring \<Rightarrow> network \<Rightarrow> session \<Rightarrow> (error + json) \<times> session" where
  "VG_mapList plat =
     legacyCall games_Vanguard modes_Multiplayer Endpoints_mapList [] plat False"

definition VG_matchInfo ::
    "jsstring \<Rightarrow> jsstring \<Rightarrow> network \<Rightarrow> session \<Rightarrow> (error + json) \<times> session" where
  "VG_matchInfo matchId plat =
     legacyCall games_Vanguard modes_Multiplayer
       (\<lambda>e. Endpoints_matchInfo e matchId) [] plat False"

subsection \<open>Classes SHOP, USER and ALT\<close>

definition SHOP_purchasableItems ::
    "jsstring \<Rightarrow> network \<Rightarrow> session \<Rightarrow> (error + json) \<times> session" where
  "SHOP_purchasableItems gameId net s =
     sendRequest
       (Endpoints_purchasableItems
          (new_Endpoints games_NULL [] platforms_NULL modes_NULL []) gameId) net s"

definition SHOP_bundleInformation ::
    "jsstring \<Rightarrow> jsstring \<Rightarrow> network \<Rightarrow> session \<Rightarrow> (error + json) \<times> session" where
  "SHOP_bundleInformation title bundleId net s =
     sendRequest
       (Endpoints_bundleInformation
          (new_Endpoints games_NULL [] platforms_NULL modes_NULL []) title bundleId) net s"

definition SHOP_battlePassLoot ::
    "jsstring \<Rightarrow> int \<Rightarrow> jsstring \<Rightarrow> network \<Rightarrow> session \<Rightarrow> (error + json) \<times> session" where
  "SHOP_battlePassLoot title season plat =
     legacyCall title modes_NULL (\<lambda>e. Endpoints_battlePassLoot e season) [] plat False"

definition USER_friendFeed ::
    "jsstring \<Rightarrow> jsstring \<Rightarrow> network \<Rightarrow> session \<Rightarrow> (error + json) \<times> session" where
  "USER_friendFeed gt plat =
     legacyCall games_NULL modes_NULL Endpoints_friendFeed gt plat False"

definition USER_eventFeed :: "network \<Rightarrow> session \<Rightarrow> (error + json) \<times> session" where
  "USER_eventFeed net s =
     sendRequest
       (Endpoints_eventFeed s (new_Endpoints games_NULL [] platforms_NULL modes_NULL []))
       net s"

definition USER_loggedInIdentities :: "network \<Rightarrow> session \<Rightarrow> (error + json) \<times> session" where
  "USER_loggedInIdentities net s =
     sendRequest
       (Endpoints_loggedInIdentities s
          (new_Endpoints games_NULL [] platforms_NULL modes_NULL []))
       net s"

definition USER_codPoints ::
    "jsstring \<Rightarrow> jsstring \<Rightarrow> network \<Rightarrow> session \<Rightarrow> (error + json) \<times> session" where
  "USER_codPoints gt plat =
     legacyCall games_NULL modes_NULL Endpoints_codPoints gt plat False"

definition USER_connectedAccounts ::
    "jsstring \<Rightarrow> jsstring \<Rightarrow> network \<Rightarrow> session \<Rightarrow> (error + json) \<times> session" where
  "USER_connectedAccounts gt plat =
     legacyCall games_NULL modes_NULL Endpoints_connectedAccounts gt plat False"

definition USER_settings ::
    "jsstring \<Rightarrow> jsstring \<Rightarrow> network \<Rightarrow> session \<Rightarrow> (error + json) \<times> session" where
  "USER_settings gt plat =
     legacyCall games_NULL modes_NULL Endpoints_settings gt plat False"

text \<open>\<open>friendAction\<close> has the same shape but posts the body \<open>{}\<close>.\<close>

definition USER_friendAction ::
    "jsstring \<Rightarrow> jsstring \<Rightarrow> jsstring \<Rightarrow> network \<Rightarrow> session \<Rightarrow> (error + json) \<times> session" where
  "USER_friendAction gt plat action net s =
     (case mapGamertagToPlatform gt plat False of
        Inl e \<Rightarrow> (Inl e, s)
      | Inr i \<Rightarrow>
          sendPostRequest
            (Endpoints_friendAction
               (new_Endpoints games_NULL (r_gamertag i) (r_platform i) modes_NULL
                  (r_lookupType i)) action)
            (js ''{}'') net s)"

definition ALT_search ::
    "jsstring \<Rightarrow> jsstring \<Rightarrow> network \<Rightarrow> session \<Rightarrow> (error + json) \<times> session" where
  "ALT_search gt plat =
     legacyCall games_NULL modes_NULL Endpoints_search gt plat True"

section \<open>Reachable sessions and example networks\<close>

text \<open>
  The module variables are written by seven functions only: the two logins, the three
  dispatchers and the two debug switches. A session is reachable when a sequence of
  these calls, each against any network, leads to it from the initial one.
\<close>

inductive_set reachable :: "session set" where
  r_init: "init_session \<in> reachable"
| r_login: "s \<in> reachable \<Longrightarrow> snd (login tok s) \<in> reachable"
| r_telescopeLogin: "s \<in> reachable \<Longrightarrow> snd (telescopeLogin u p net s) \<in> reachable"
| r_sendRequest: "s \<in> reachable \<Longrightarrow> snd (sendRequest url net s) \<in> reachable"
| r_sendTelescopeRequest:
    "s \<in> reachable \<Longrightarrow> snd (sendTelescopeRequest url net s) \<in> reachable"
| r_sendPostRequest: "s \<in> reachable \<Longrightarrow> snd (sendPostRequest url d net s) \<in> reachable"
| r_enableDebugMode: "s \<in> reachable \<Longrightarrow> enableDebugMode s \<in> reachable"
| r_disableDebugMode: "s \<in> reachable \<Longrightarrow> disableDebugMode s \<in> reachable"

text \<open>A network that answers every request with the same status and body.\<close>

definition respondWith :: "nat \<Rightarrow> json option \<Rightarrow> network" where
  "respondWith code b rq = Inr \<lparr> statusCode = code, body = b \<rparr>"

text \<open>A network that rejects every request with the same error.\<close>

definition rejectWith :: "error \<Rightarrow> network" where
  "rejectWith e rq = Inl e"

section \<open>Predicates used to state the claims\<close>

text \<open>
  The code units that occur in some string matching StringNumericLiteral: white space,
  hexadecimal digits (which include the decimal digits, the exponent markers and the
  binary marker), the signs, the dot, the markers \<open>x\<close> and \<open>o\<close> of either case, and the
  letters of \<open>Infinity\<close>.
\<close>

definition isNumericLiteralChar :: "16 word \<Rightarrow> bool" where
  "isNumericLiteralChar c \<longleftrightarrow>
     isStrWhiteSpaceChar c \<or> isHexDigit c \<or> c \<in> set (js ''+-.xXoOInity'')"

text \<open>
  The header object that a login with the token \<open>tok\<close> leaves behind when it starts
  from the initial headers or from those of an earlier login: the three initial
  properties in place (the cookie overwritten), then the five added ones.
\<close>

definition loginHeaderSet :: "jsstring \<Rightarrow> jsstring \<Rightarrow> headers" where
  "loginHeaderSet contentType tok =
     [(js ''content-type'', contentType),
      (js ''cookie'', loginCookie tok),
      (js ''user-agent'', userAgent),
      (js ''X-XSRF-TOKEN'', fakeXSRF),
      (js ''X-CSRF-TOKEN'', fakeXSRF),
      (js ''Atvi-Auth'', tok),
      (js ''ACT_SSO_COOKIE'', tok),
      (js ''atkn'', tok)]"

text \<open>
  The invariant of the two legacy header objects: each is as initialised or as some
  login left it.
\<close>

definition headers_inv :: "session \<Rightarrow> bool" where
  "headers_inv s \<longleftrightarrow>
     (baseHeaders s = baseHeaders init_session \<or>
        (\<exists>t. baseHeaders s = loginHeaderSet (js ''application/json'') t)) \<and>
     (basePostHeaders s = basePostHeaders init_session \<or>
        (\<exists>t. basePostHeaders s = loginHeaderSet (js ''text/plain'') t))"

text \<open>The number a string of decimal digits denotes.\<close>

definition decimalValue :: "jsstring \<Rightarrow> nat" where
  "decimalValue ds = foldl (\<lambda>a c. 10 * a + (unat c - 0x30)) 0 ds"

section \<open>Shared lemmas\<close>

lemmas enum_defs =
  platforms_All_def platforms_Activision_def platforms_Battlenet_def platforms_PSN_def
  platforms_Steam_def platforms_Uno_def platforms_XBOX_def platforms_ios_def platforms_NULL_def
  games_ModernWarfare_def games_ModernWarfare2_def games_Vanguard_def games_ColdWar_def
  games_NULL_def modes_Multiplayer_def modes_Warzone_def modes_Warzone2_def modes_NULL_def
  telescopeGames_ModernWarfare2_def telescopeGames_Warzone2_def
  telescopeGames_ModernWarfare3_def telescopeGames_Mobile_def telescopeModes_Multiplayer_def

lemma numberToString_0: "numberToString 0 = js ''0''"
  by (simp add: numberToString_def natToString.simps js_def)

lemma steam_without_support:
  "mapGamertagToPlatform gt platforms_Steam False = Inl (Error generics_STEAM_UNSUPPORTED)"
  by (simp add: mapGamertagToPlatform_def checkForValidPlatform_def platforms_values_def
      enum_defs js_def)

lemma steam_with_support:
  "mapGamertagToPlatform gt platforms_Steam True =
     Inr \<lparr> r_gamertag = gt, r_platform = platforms_Steam, r_lookupType = js ''gamer'' \<rparr>"
  by (simp add: mapGamertagToPlatform_def checkForValidPlatform_def platforms_values_def
      handleLookupType_def enum_defs js_def)

lemma combatHistoryWithDate_0_0:
  "Endpoints_combatHistoryWithDate e 0 0 = Endpoints_combatHistory e"
  by (simp add: Endpoints_combatHistoryWithDate_def Endpoints_combatHistory_def
      numberToString_0 js_def)

lemma matchInfo_path:
  "Endpoints_matchInfo (new_Endpoints g gt plat m lt) matchId =
     js ''/crm/cod/v2/title/'' @ g @ js ''/platform/'' @ plat @ js ''/fullMatch/wz/'' @
     matchId @ js ''/en''"
  by (simp add: Endpoints_matchInfo_def new_Endpoints_def tpl_def)

subsection \<open>Numeric handles\<close>

lemma digit_unescaped: "isDecimalDigit c \<Longrightarrow> isUnescaped c"
  by (simp add: isDecimalDigit_def isUnescaped_def)

lemma digit_not_space: "isDecimalDigit c \<Longrightarrow> \<not> isStrWhiteSpaceChar c"
  unfolding isDecimalDigit_def isStrWhiteSpaceChar_def
  by (auto simp: word_le_def word_less_def)

lemma encode_digits: "list_all isDecimalDigit h \<Longrightarrow> encodeURIComponent h = Inr h"
  by (induction h rule: encodeURIComponent.induct) (simp_all add: digit_unescaped)

lemma trim_digits: "list_all isDecimalDigit h \<Longrightarrow> trim h = h"
proof (cases h rule: rev_cases)
  case Nil then show ?thesis by (simp add: trim_def)
next
  case (snoc ys y)
  assume a: "list_all isDecimalDigit h"
  show ?thesis
  proof (cases h)
    case Nil then show ?thesis by (simp add: trim_def)
  next
    case (Cons x xs)
    with a have "\<not> isStrWhiteSpaceChar x" by (simp add: digit_not_space)
    with Cons have 1: "dropWhile isStrWhiteSpaceChar h = h" by simp
    from a snoc have "\<not> isStrWhiteSpaceChar y" by (simp add: digit_not_space)
    with snoc have 2: "dropWhile isStrWhiteSpaceChar (rev h) = rev h" by simp
    show ?thesis by (simp add: trim_def 1 2)
  qed
qed

lemma digits_number: "list_all isDecimalDigit h \<Longrightarrow> \<not> isNaN_Number h"
proof (cases h)
  case Nil then show ?thesis by (simp add: isNaN_Number_def isStringNumericLiteral_def trim_def)
next
  case (Cons c cs)
  assume a: "list_all isDecimalDigit h"
  then have tw: "takeWhile isDecimalDigit h = h" and dw: "dropWhile isDecimalDigit h = []"
    by (simp_all add: list_all_iff)
  from a Cons have "isDecimalDigit c" by simp
  then have ns: "c \<noteq> 0x2B" "c \<noteq> 0x2D" by (auto simp: isDecimalDigit_def)
  have "isStrUnsignedDecimalLiteral h"
    unfolding isStrUnsignedDecimalLiteral_def Let_def tw dw using Cons by simp
  then have "isStrDecimalLiteral h"
    using Cons ns by (simp add: isStrDecimalLiteral_def)
  then show ?thesis
    by (simp add: isNaN_Number_def isStringNumericLiteral_def trim_digits[OF a])
qed

lemma uno_valid: "platforms_Uno \<in> set platforms_values" 
  by (simp add: platforms_values_def)

lemma checkForValidPlatform_uno: "checkForValidPlatform platforms_Uno (Some h) =
   (if h \<noteq> [] \<and> isNaN_Number h then Inl (Error generics_UNO_NO_NUMERICAL_ID) else Inr ())"
  by (simp add: checkForValidPlatform_def uno_valid)

lemma encode_error: "encodeURIComponent h = Inl e \<Longrightarrow> e = URIError"
  by (induction h arbitrary: e rule: encodeURIComponent.induct) (auto split: if_splits sum.splits)

lemma uno_neq_steam: "platforms_Uno \<noteq> platforms_Steam"
  by (simp add: enum_defs js_def)

lemma uno_resolution: "mapGamertagToPlatform h platforms_Uno ss =
   (if h \<noteq> [] \<and> isNaN_Number h then Inl (Error generics_UNO_NO_NUMERICAL_ID)
    else case (if h \<noteq> [] then cleanClientName h else Inr h) of
       Inl e \<Rightarrow> Inl e
     | Inr g \<Rightarrow> Inr \<lparr> r_gamertag = g, r_platform = platforms_Uno, r_lookupType = js ''id'' \<rparr>)"
  by (simp add: mapGamertagToPlatform_def checkForValidPlatform_uno uno_neq_steam handleLookupType_def)

lemma uno_rejects_iff:
  "(mapGamertagToPlatform h platforms_Uno ss = Inl (Error generics_UNO_NO_NUMERICAL_ID)) =
   (h \<noteq> [] \<and> isNaN_Number h)"
  by (auto simp add: uno_resolution cleanClientName_def split: sum.splits dest: encode_error)

lemma uno_digits_resolution: "list_all isDecimalDigit h \<Longrightarrow> mapGamertagToPlatform h platforms_Uno ss =
   Inr \<lparr> r_gamertag = h, r_platform = platforms_Uno, r_lookupType = js ''id'' \<rparr>"
  by (simp add: uno_resolution digits_number cleanClientName_def encode_digits)

lemma acti_valid: "platforms_Activision \<in> set platforms_values" 
  by (simp add: platforms_values_def)

lemma acti_digits_resolution: "list_all isDecimalDigit h \<Longrightarrow> mapGamertagToPlatform h platforms_Activision ss =
   Inr \<lparr> r_gamertag = h, r_platform = platforms_Uno, r_lookupType = js ''gamer'' \<rparr>"
  by (simp add: mapGamertagToPlatform_def checkForValidPlatform_def acti_valid
      cleanClientName_def encode_digits handleLookupType_def)
   (simp add: enum_defs js_def)

subsection \<open>The characters of a numeric literal\<close>

lemma in_dropWhile: "c \<in> set s \<Longrightarrow> P c \<or> c \<in> set (dropWhile P s)"
  by (induction s) auto

lemma in_trim: "c \<in> set s \<Longrightarrow> isStrWhiteSpaceChar c \<or> c \<in> set (trim s)"
proof -
  assume "c \<in> set s"
  then have "isStrWhiteSpaceChar c \<or> c \<in> set (rev (dropWhile isStrWhiteSpaceChar s))"
    using in_dropWhile[of c s isStrWhiteSpaceChar] by simp
  then show ?thesis
    using in_dropWhile[of c "rev (dropWhile isStrWhiteSpaceChar s)" isStrWhiteSpaceChar]
    by (auto simp: trim_def)
qed

lemma digit_char: "isDecimalDigit c \<Longrightarrow> isNumericLiteralChar c"
  by (simp add: isDecimalDigit_def isNumericLiteralChar_def isHexDigit_def)

lemma bin_char: "isBinaryDigit c \<Longrightarrow> isNumericLiteralChar c"
  by (auto simp add: isBinaryDigit_def isNumericLiteralChar_def isHexDigit_def)

lemma oct_char: "isOctalDigit c \<Longrightarrow> isNumericLiteralChar c"
proof -
  assume "isOctalDigit c"
  then have "0x30 \<le> c" and "c \<le> 0x37" by (simp_all add: isOctalDigit_def)
  moreover have "(0x37 :: 16 word) \<le> 0x39" by simp
  ultimately have "isDecimalDigit c" unfolding isDecimalDigit_def by (meson order_trans)
  then show ?thesis by (rule digit_char)
qed

lemma hex_char: "isHexDigit c \<Longrightarrow> isNumericLiteralChar c"
  by (simp add: isNumericLiteralChar_def)

lemma sym_chars:
  "isNumericLiteralChar 0x2B" "isNumericLiteralChar 0x2D" "isNumericLiteralChar 0x2E"
  "isNumericLiteralChar 0x65" "isNumericLiteralChar 0x45"
  "isNumericLiteralChar 0x30"
  "isNumericLiteralChar 0x62" "isNumericLiteralChar 0x42"
  "isNumericLiteralChar 0x6F" "isNumericLiteralChar 0x4F"
  "isNumericLiteralChar 0x78" "isNumericLiteralChar 0x58"
  by (simp_all add: isNumericLiteralChar_def isHexDigit_def js_def)

lemma infinity_chars: "c \<in> set (js ''Infinity'') \<Longrightarrow> isNumericLiteralChar c"
  by (auto simp add: isNumericLiteralChar_def isHexDigit_def js_def)

lemma digits_chars: "isDigits d s \<Longrightarrow> c \<in> set s \<Longrightarrow> d c"
  by (simp add: isDigits_def list_all_iff)

lemma signed_chars: "isSignedInteger s \<Longrightarrow> c \<in> set s \<Longrightarrow> isNumericLiteralChar c"
  by (cases s) (auto simp: isSignedInteger_def sym_chars split: if_splits
      dest: digits_chars digit_char)

lemma exponent_chars: "isExponentPartOpt s \<Longrightarrow> c \<in> set s \<Longrightarrow> isNumericLiteralChar c"
  by (cases s) (auto simp: isExponentPartOpt_def sym_chars dest: signed_chars)

lemma digits_then_exponent_chars:
  "isExponentPartOpt (dropWhile isDecimalDigit s) \<Longrightarrow> c \<in> set s \<Longrightarrow> isNumericLiteralChar c"
  using in_dropWhile[of c s isDecimalDigit] by (auto dest: exponent_chars digit_char)

lemma unsigned_chars:
  assumes "isStrUnsignedDecimalLiteral s" and "c \<in> set s"
  shows "isNumericLiteralChar c"
proof (cases "s = js ''Infinity''")
  case True with assms show ?thesis by (simp add: infinity_chars)
next
  case False
  from assms(2) have "isDecimalDigit c \<or> c \<in> set (dropWhile isDecimalDigit s)"
    by (rule in_dropWhile)
  then show ?thesis
  proof
    assume "isDecimalDigit c" then show ?thesis by (rule digit_char)
  next
    assume c: "c \<in> set (dropWhile isDecimalDigit s)"
    then obtain d cs where r: "dropWhile isDecimalDigit s = d # cs"
      by (cases "dropWhile isDecimalDigit s") auto
    from assms(1) False r
    have "(d = 0x2E \<and> isExponentPartOpt (dropWhile isDecimalDigit cs)) \<or>
          isExponentPartOpt (d # cs)"
      by (auto simp: isStrUnsignedDecimalLiteral_def Let_def split: if_splits)
    then show ?thesis
    proof
      assume "d = 0x2E \<and> isExponentPartOpt (dropWhile isDecimalDigit cs)"
      with c r show ?thesis
        by (auto simp: sym_chars dest: digits_then_exponent_chars)
    next
      assume "isExponentPartOpt (d # cs)"
      with c r show ?thesis by (auto dest: exponent_chars)
    qed
  qed
qed

lemma decimal_chars: "isStrDecimalLiteral s \<Longrightarrow> c \<in> set s \<Longrightarrow> isNumericLiteralChar c"
  by (cases s) (auto simp: isStrDecimalLiteral_def sym_chars split: if_splits
      dest: unsigned_chars)

lemma nondecimal_chars:
  "isNonDecimalIntegerLiteral s \<Longrightarrow> c \<in> set s \<Longrightarrow> isNumericLiteralChar c"
  by (auto simp: isNonDecimalIntegerLiteral_def sym_chars split: list.splits
      dest: digits_chars bin_char oct_char hex_char)

lemma numeric_literal_chars:
  assumes "isStringNumericLiteral s" and "c \<in> set s"
  shows "isNumericLiteralChar c"
proof -
  from assms(2) have "isStrWhiteSpaceChar c \<or> c \<in> set (trim s)" by (rule in_trim)
  then show ?thesis
  proof
    assume "isStrWhiteSpaceChar c" then show ?thesis by (simp add: isNumericLiteralChar_def)
  next
    assume "c \<in> set (trim s)"
    with assms(1) show ?thesis
      by (auto simp: isStringNumericLiteral_def Let_def dest: decimal_chars nondecimal_chars)
  qed
qed

subsection \<open>Logins and the legacy headers\<close>

lemma dropWhile_all: "(dropWhile P s = []) = list_all P s"
  by (induction s) auto

lemma list_all_dropWhile: "list_all P (dropWhile P s) = list_all P s"
  by (induction s) auto

lemma trim_empty_iff: "(trim tok = []) = list_all isStrWhiteSpaceChar tok"
  by (simp add: trim_def dropWhile_all list_all_dropWhile flip: list_all_iff)

lemma login_blank: "trim tok = [] \<Longrightarrow> login tok s = (False, s)"
  by (simp add: login_def)

lemma login_nonblank:
  "trim tok \<noteq> [] \<Longrightarrow> login tok s =
     (True, s\<lparr> baseHeaders := setLoginHeaders tok (baseHeaders s),
               baseSsoToken := tok,
               basePostHeaders := setLoginHeaders tok (basePostHeaders s),
               loggedIn := True \<rparr>)"
  by (auto simp add: login_def trim_def)

lemma telescopeLogin_missing:
  "u = [] \<or> p = [] \<Longrightarrow> telescopeLogin u p net s = (Inr False, s)"
  by (auto simp add: telescopeLogin_def)

lemma setLoginHeaders_init:
  "setLoginHeaders tok
     [(js ''content-type'', ct), (js ''cookie'', c), (js ''user-agent'', userAgent)]
     = loginHeaderSet ct tok"
  by (simp add: setLoginHeaders_def loginHeaderSet_def js_def)

lemma setLoginHeaders_again:
  "setLoginHeaders tok (loginHeaderSet ct t) = loginHeaderSet ct tok"
  by (simp add: setLoginHeaders_def loginHeaderSet_def js_def)

lemma dispatch_headers:
  "baseHeaders (snd (dispatch rq net s)) = baseHeaders s"
  "basePostHeaders (snd (dispatch rq net s)) = basePostHeaders s"
  by (simp_all add: dispatch_def Let_def split: sum.splits option.splits)

lemma sendRequest_headers:
  "baseHeaders (snd (sendRequest url net s)) = baseHeaders s"
  "basePostHeaders (snd (sendRequest url net s)) = basePostHeaders s"
  by (simp_all add: sendRequest_def dispatch_headers)

lemma sendPostRequest_headers:
  "baseHeaders (snd (sendPostRequest url d net s)) = baseHeaders s"
  "basePostHeaders (snd (sendPostRequest url d net s)) = basePostHeaders s"
  by (simp_all add: sendPostRequest_def dispatch_headers)

lemma sendTelescopeRequest_headers:
  "baseHeaders (snd (sendTelescopeRequest url net s)) = baseHeaders s"
  "basePostHeaders (snd (sendTelescopeRequest url net s)) = basePostHeaders s"
  by (simp_all add: sendTelescopeRequest_def dispatch_headers Let_def split: sum.splits)

lemma telescopeLogin_headers:
  "baseHeaders (snd (telescopeLogin u p net s)) = baseHeaders s"
  "basePostHeaders (snd (telescopeLogin u p net s)) = basePostHeaders s"
  by (simp_all add: telescopeLogin_def Let_def split: sum.splits option.splits)

lemma login_inv: "headers_inv s \<Longrightarrow> headers_inv (snd (login tok s))"
proof (cases "trim tok = []")
  case True
  assume "headers_inv s" with True show ?thesis by (simp add: login_blank)
next
  case False
  assume "headers_inv s"
  then show ?thesis
    unfolding headers_inv_def
    by (auto simp add: login_nonblank[OF False] init_session_def setLoginHeaders_init setLoginHeaders_again)
qed

lemma reachable_inv: "s \<in> reachable \<Longrightarrow> headers_inv s"
proof (induction rule: reachable.induct)
  case r_init
  show ?case by (simp add: headers_inv_def)
next
  case (r_login s tok)
  then show ?case by (simp add: login_inv)
qed (simp_all add: headers_inv_def sendRequest_headers sendPostRequest_headers
      sendTelescopeRequest_headers telescopeLogin_headers enableDebugMode_def disableDebugMode_def)

lemma login_reachable_headers:
  assumes "trim tok \<noteq> []" and "s \<in> reachable"
  shows "baseHeaders (snd (login tok s)) = loginHeaderSet (js ''application/json'') tok"
    and "basePostHeaders (snd (login tok s)) = loginHeaderSet (js ''text/plain'') tok"
  using reachable_inv[OF assms(2)] unfolding headers_inv_def
  by (auto simp add: login_nonblank[OF assms(1)] init_session_def setLoginHeaders_init setLoginHeaders_again)

lemma not_logged_in:
  "\<not> loggedIn s \<Longrightarrow> sendRequest url net s = (Inl (Error (js ''Not Logged In.'')), s)"
  "\<not> loggedIn s \<Longrightarrow> sendPostRequest url d net s = (Inl (Error (js ''Not Logged In.'')), s)"
  "\<not> loggedIn s \<Longrightarrow> sendTelescopeRequest url net s = (Inl (Error (js ''Not Logged In!'')), s)"
  by (simp_all add: sendRequest_def sendPostRequest_def sendTelescopeRequest_def)

lemma telescopeLogin_flag_returns:
  "telescopeLogin u p net s = (Inr b, s') \<Longrightarrow> u \<noteq> [] \<Longrightarrow> p \<noteq> [] \<Longrightarrow>
   loggedIn s' = b \<and>
   (\<exists>resp. net \<lparr> req_url = telescope_login_endpoint, req_method = POST,
                  req_headers = baseHeaders s,
                  req_body = Some (Stringified (telescopeLoginBody u p)) \<rparr> = Inr resp \<and>
           b = (statusCode resp = 200))"
  by (auto simp add: telescopeLogin_def Let_def split: sum.splits option.splits if_splits)

lemma telescopeLogin_flag_throws:
  "telescopeLogin u p net s = (Inl e, s') \<Longrightarrow> loggedIn s' = loggedIn s"
  by (auto simp add: telescopeLogin_def Let_def split: sum.splits option.splits if_splits)

subsection \<open>Dispatch\<close>

lemma digit_unit: "n < 10 \<Longrightarrow> unat (0x30 + of_nat n :: 16 word) = 0x30 + n"
  by (simp add: unat_word_ariths unat_of_nat)

lemma digit_unit_is_digit: "n < 10 \<Longrightarrow> isDecimalDigit (0x30 + of_nat n)"
  by (simp add: isDecimalDigit_def word_le_nat_alt digit_unit)

lemma natToString_digits: "list_all isDecimalDigit (natToString n)"
proof (induction n rule: natToString.induct)
  case (1 n)
  show ?case
  proof (cases "n < 10")
    case True
    then show ?thesis by (subst natToString.simps) (simp add: digit_unit_is_digit)
  next
    case False
    with 1 show ?thesis by (subst natToString.simps) (simp add: digit_unit_is_digit)
  qed
qed

lemma natToString_nonempty: "natToString n \<noteq> []"
  by (subst natToString.simps) simp

lemma decimalValue_snoc: "decimalValue (ds @ [c]) = 10 * decimalValue ds + (unat c - 0x30)"
  by (simp add: decimalValue_def)

lemma decimalValue_natToString: "decimalValue (natToString n) = n"
proof (induction n rule: natToString.induct)
  case (1 n)
  show ?case
  proof (cases "n < 10")
    case True
    then show ?thesis
      by (subst natToString.simps) (simp add: decimalValue_def digit_unit)
  next
    case False
    with 1 have "decimalValue (natToString (n div 10)) = n div 10" by simp
    with False show ?thesis
      by (subst natToString.simps) (simp add: decimalValue_snoc digit_unit)
  qed
qed

lemma sendRequest_logged_in:
  "loggedIn s \<Longrightarrow> sendRequest url net s =
     dispatch \<lparr> req_url = baseUrl @ apiPath @ url, req_method = GET,
                req_headers = baseHeaders s, req_body = None \<rparr> net s"
  by (simp add: sendRequest_def)

lemma sendPostRequest_logged_in:
  "loggedIn s \<Longrightarrow> sendPostRequest url d net s =
     dispatch \<lparr> req_url = baseUrl @ apiPath @ url, req_method = POST,
                req_headers = basePostHeaders s, req_body = Some (Text d) \<rparr> net s"
  by (simp add: sendPostRequest_def)

lemma sendTelescopeRequest_logged_in:
  "loggedIn s \<Longrightarrow> toStringValue (telescopeUnoToken s) = Inr t \<Longrightarrow>
   sendTelescopeRequest url net s =
     dispatch \<lparr> req_url = baseTelescopeUrl @ apiTelescopePath @ url, req_method = GET,
                req_headers = AList.update (js ''authorization'') (js ''Bearer '' @ t)
                                (baseTelescopeHeaders s),
                req_body = None \<rparr> net
       (s\<lparr> baseTelescopeHeaders :=
             AList.update (js ''authorization'') (js ''Bearer '' @ t) (baseTelescopeHeaders s) \<rparr>)"
  by (simp add: sendTelescopeRequest_def Let_def)

lemma dispatch_server_error:
  "net rq = Inr resp \<Longrightarrow> 500 \<le> statusCode resp \<Longrightarrow>
   dispatch rq net s =
     (Inl (Error (statusMessage (statusCode resp))), s\<lparr> trace := trace s @ [NetworkCall rq] \<rparr>)"
  by (simp add: dispatch_def)

lemma dispatch_not_json:
  "net rq = Inr resp \<Longrightarrow> statusCode resp < 500 \<Longrightarrow> body resp = None \<Longrightarrow>
   dispatch rq net s = (Inl SyntaxError, s\<lparr> trace := trace s @ [NetworkCall rq, BodyJson] \<rparr>)"
  by (simp add: dispatch_def)

lemma dispatch_json:
  "net rq = Inr resp \<Longrightarrow> statusCode resp < 500 \<Longrightarrow> body resp = Some j \<Longrightarrow>
   dispatch rq net s = (Inr j, s\<lparr> trace := trace s @ [NetworkCall rq, BodyJson] \<rparr>)"
  by (simp add: dispatch_def)

lemma sendTelescopeRequest_passes_gate:
  "loggedIn s \<Longrightarrow>
   sendTelescopeRequest url net s =
     (case toStringValue (telescopeUnoToken s) of
        Inl e \<Rightarrow> (Inl e, s)
      | Inr t \<Rightarrow>
          dispatch \<lparr> req_url = baseTelescopeUrl @ apiTelescopePath @ url, req_method = GET,
                     req_headers = AList.update (js ''authorization'') (js ''Bearer '' @ t)
                                     (baseTelescopeHeaders s),
                     req_body = None \<rparr> net
            (s\<lparr> baseTelescopeHeaders :=
                  AList.update (js ''authorization'') (js ''Bearer '' @ t)
                    (baseTelescopeHeaders s) \<rparr>))"
  by (simp add: sendTelescopeRequest_def Let_def split: sum.splits)

lemma fst_dispatch_json:
  "code < 500 \<Longrightarrow> fst (dispatch rq (respondWith code (Some j)) s) = Inr j"
  by (simp add: dispatch_def respondWith_def Let_def)

lemma psn_resolution:
  "mapGamertagToPlatform gt platforms_PSN ss =
     Inr \<lparr> r_gamertag = gt, r_platform = platforms_PSN, r_lookupType = js ''gamer'' \<rparr>"
  by (simp add: mapGamertagToPlatform_def checkForValidPlatform_def platforms_values_def
      handleLookupType_def enum_defs js_def)

subsection \<open>The sentinel platforms\<close>

lemma sentinel_resolution:
  "plat = platforms_All \<or> plat = platforms_NULL \<Longrightarrow>
   mapGamertagToPlatform gt plat ss =
     Inr \<lparr> r_gamertag = gt, r_platform = plat, r_lookupType = js ''gamer'' \<rparr>"
  by (auto simp add: mapGamertagToPlatform_def checkForValidPlatform_def platforms_values_def
      handleLookupType_def enum_defs js_def)

lemma legacyCall_sentinel:
  "plat = platforms_All \<or> plat = platforms_NULL \<Longrightarrow>
   legacyCall g m build gt plat ss net s =
     sendRequest (build (new_Endpoints g gt plat m (js ''gamer''))) net s"
  by (simp add: legacyCall_def sentinel_resolution)

lemma checkForValidPlatform_member:
  "plat \<in> set platforms_values \<Longrightarrow>
   checkForValidPlatform plat (Some h) =
     (if h \<noteq> [] \<and> isNaN_Number h \<and> plat = platforms_Uno
      then Inl (Error generics_UNO_NO_NUMERICAL_ID) else Inr ())"
  by (simp add: checkForValidPlatform_def)

lemma WZ_fullData_sentinel:
  assumes "plat = platforms_All \<or> plat = platforms_NULL"
  shows "WZ_fullData gt plat net s =
       sendRequest
         (js ''/stats/cod/v1/title/mw/platform/'' @ plat @ js ''/gamer/'' @ gt @
          js ''/profile/type/wz'') net s"
  using assms
  by (simp add: WZ_fullData_def legacyCall_sentinel Endpoints_fullData_def
      new_Endpoints_def tpl_def enum_defs js_def)

lemma WZ_combatHistory_sentinel:
  assumes "plat = platforms_All \<or> plat = platforms_NULL"
  shows "WZ_combatHistory gt plat net s =
       sendRequest
         (js ''/crm/cod/v2/title/mw/platform/'' @ plat @ js ''/gamer/'' @ gt @
          js ''/matches/wz/start/0/end/0/details'') net s"
  using assms
  by (simp add: WZ_combatHistory_def legacyCall_sentinel Endpoints_combatHistory_def
      new_Endpoints_def tpl_def enum_defs js_def)

lemma WZ_combatHistoryWithDate_sentinel:
  assumes "plat = platforms_All \<or> plat = platforms_NULL"
  shows "WZ_combatHistoryWithDate gt startTime endTime plat net s =
       sendRequest
         (js ''/crm/cod/v2/title/mw/platform/'' @ plat @ js ''/gamer/'' @ gt @
          js ''/matches/wz/start/'' @ numberToString startTime @ js ''/end/'' @
          numberToString endTime @ js ''/details'') net s"
  using assms
  by (simp add: WZ_combatHistoryWithDate_def legacyCall_sentinel Endpoints_combatHistoryWithDate_def
      new_Endpoints_def tpl_def enum_defs js_def)

lemma WZ_breakdown_sentinel:
  assumes "plat = platforms_All \<or> plat = platforms_NULL"
  shows "WZ_breakdown gt plat net s =
       sendRequest
         (js ''/crm/cod/v2/title/mw/platform/'' @ plat @ js ''/gamer/'' @ gt @
          js ''/matches/wz/start/0/end/0'') net s"
  using assms
  by (simp add: WZ_breakdown_def legacyCall_sentinel Endpoints_breakdown_def
      new_Endpoints_def tpl_def enum_defs js_def)

lemma WZ_breakdownWithDate_sentinel:
  assumes "plat = platforms_All \<or> plat = platforms_NULL"
  shows "WZ_breakdownWithDate gt startTime endTime plat net s =
       sendRequest
         (js ''/crm/cod/v2/title/mw/platform/'' @ plat @ js ''/gamer/'' @ gt @
          js ''/matches/wz/start/'' @ numberToString startTime @ js ''/end/'' @
          numberToString endTime) net s"
  using assms
  by (simp add: WZ_breakdownWithDate_def legacyCall_sentinel Endpoints_breakdownWithDate_def
      new_Endpoints_def tpl_def enum_defs js_def)

lemma WZ_matchInfo_sentinel:
  assumes "plat = platforms_All \<or> plat = platforms_NULL"
  shows "WZ_matchInfo matchId plat net s =
       sendRequest
         (js ''/crm/cod/v2/title/mw/platform/'' @ plat @ js ''/fullMatch/wz/'' @ matchId @
          js ''/en'') net s"
  using assms
  by (simp add: WZ_matchInfo_def legacyCall_sentinel Endpoints_matchInfo_def
      new_Endpoints_def tpl_def enum_defs js_def)

lemma MW_fullData_sentinel:
  assumes "plat = platforms_All \<or> plat = platforms_NULL"
  shows "MW_fullData gt plat net s =
       sendRequest
         (js ''/stats/cod/v1/title/mw/platform/'' @ plat @ js ''/gamer/'' @ gt @
          js ''/profile/type/mp'') net s"
  using assms
  by (simp add: MW_fullData_def legacyCall_sentinel Endpoints_fullData_def
      new_Endpoints_def tpl_def enum_defs js_def)

lemma MW_combatHistory_sentinel:
  assumes "plat = platforms_All \<or> plat = platforms_NULL"
  shows "MW_combatHistory gt plat net s =
       sendRequest
         (js ''/crm/cod/v2/title/mw/platform/'' @ plat @ js ''/gamer/'' @ gt @
          js ''/matches/mp/start/0/end/0/details'') net s"
  using assms
  by (simp add: MW_combatHistory_def legacyCall_sentinel Endpoints_combatHistory_def
      new_Endpoints_def tpl_def enum_defs js_def)

lemma MW_combatHistoryWithDate_sentinel:
  assumes "plat = platforms_All \<or> plat = platforms_NULL"
  shows "MW_combatHistoryWithDate gt startTime endTime plat net s =
       sendRequest
         (js ''/crm/cod/v2/title/mw/platform/'' @ plat @ js ''/gamer/'' @ gt @
          js ''/matches/mp/start/'' @ numberToString startTime @ js ''/end/'' @
          numberToString endTime @ js ''/details'') net s"
  using assms
  by (simp add: MW_combatHistoryWithDate_def legacyCall_sentinel Endpoints_combatHistoryWithDate_def
      new_Endpoints_def tpl_def enum_defs js_def)

lemma MW_breakdown_sentinel:
  assumes "plat = platforms_All \<or> plat = platforms_NULL"
  shows "MW_breakdown gt plat net s =
       sendRequest
         (js ''/crm/cod/v2/title/mw/platform/'' @ plat @ js ''/gamer/'' @ gt @
          js ''/matches/mp/start/0/end/0'') net s"
  using assms
  by (simp add: MW_breakdown_def legacyCall_sentinel Endpoints_breakdown_def
      new_Endpoints_def tpl_def enum_defs js_def)

lemma MW_breakdownWithDate_sentinel:
  assumes "plat = platforms_All \<or> plat = platforms_NULL"
  shows "MW_breakdownWithDate gt startTime endTime plat net s =
       sendRequest
         (js ''/crm/cod/v2/title/mw/platform/'' @ plat @ js ''/gamer/'' @ gt @
          js ''/matches/mp/start/'' @ numberToString startTime @ js ''/end/'' @
          numberToString endTime) net s"
  using assms
  by (simp add: MW_breakdownWithDate_def legacyCall_sentinel Endpoints_breakdownWithDate_def
      new_Endpoints_def tpl_def enum_defs js_def)

lemma MW_matchInfo_sentinel:
  assumes "plat = platforms_All \<or> plat = platforms_NULL"
  shows "MW_matchInfo matchId plat net s =
       sendRequest
         (js ''/crm/cod/v2/title/mw/platform/'' @ plat @ js ''/fullMatch/wz/'' @ matchId @
          js ''/en'') net s"
  using assms
  by (simp add: MW_matchInfo_def legacyCall_sentinel Endpoints_matchInfo_def
      new_Endpoints_def tpl_def enum_defs js_def)

lemma MW_seasonloot_sentinel:
  assumes "plat = platforms_All \<or> plat = platforms_NULL"
  shows "MW_seasonloot gt plat net s =
       sendRequest
         (js ''/loot/title/mw/platform/'' @ plat @ js ''/gamer/'' @ gt @ js ''/status/en'') net s"
  using assms
  by (simp add: MW_seasonloot_def legacyCall_sentinel Endpoints_seasonLoot_def
      new_Endpoints_def tpl_def enum_defs js_def)

lemma MW_mapList_sentinel:
  assumes "plat = platforms_All \<or> plat = platforms_NULL"
  shows "MW_mapList plat net s =
       sendRequest
         (js ''/ce/v1/title/mw/platform/'' @ plat @
          js ''/gameType/mp/communityMapData/availability'') net s"
  using assms
  by (simp add: MW_mapList_def legacyCall_sentinel Endpoints_mapList_def
      new_Endpoints_def tpl_def enum_defs js_def)

lemma CW_fullData_sentinel:
  assumes "plat = platforms_All \<or> plat = platforms_NULL"
  shows "CW_fullData gt plat net s =
       sendRequest
         (js ''/stats/cod/v1/title/cw/platform/'' @ plat @ js ''/gamer/'' @ gt @
          js ''/profile/type/mp'') net s"
  using assms
  by (simp add: CW_fullData_def legacyCall_sentinel Endpoints_fullData_def
      new_Endpoints_def tpl_def enum_defs js_def)

lemma CW_combatHistory_sentinel:
  assumes "plat = platforms_All \<or> plat = platforms_NULL"
  shows "CW_combatHistory gt plat net s =
       sendRequest
         (js ''/crm/cod/v2/title/cw/platform/'' @ plat @ js ''/gamer/'' @ gt @
          js ''/matches/mp/start/0/end/0/details'') net s"
  using assms
  by (simp add: CW_combatHistory_def legacyCall_sentinel Endpoints_combatHistory_def
      new_Endpoints_def tpl_def enum_defs js_def)

lemma CW_combatHistoryWithDate_sentinel:
  assumes "plat = platforms_All \<or> plat = platforms_NULL"
  shows "CW_combatHistoryWithDate gt startTime endTime plat net s =
       sendRequest
         (js ''/crm/cod/v2/title/cw/platform/'' @ plat @ js ''/gamer/'' @ gt @
          js ''/matches/mp/start/'' @ numberToString startTime @ js ''/end/'' @
          numberToString endTime @ js ''/details'') net s"
  using assms
  by (simp add: CW_combatHistoryWithDate_def legacyCall_sentinel Endpoints_combatHistoryWithDate_def
      new_Endpoints_def tpl_def enum_defs js_def)

lemma CW_breakdown_sentinel:
  assumes "plat = platforms_All \<or> plat = platforms_NULL"
  shows "CW_breakdown gt plat net s =
       sendRequest
         (js ''/crm/cod/v2/title/cw/platform/'' @ plat @ js ''/gamer/'' @ gt @
          js ''/matches/mp/start/0/end/0'') net s"
  using assms
  by (simp add: CW_breakdown_def legacyCall_sentinel Endpoints_breakdown_def
      new_Endpoints_def tpl_def enum_defs js_def)

lemma CW_breakdownWithDate_sentinel:
  assumes "plat = platforms_All \<or> plat = platforms_NULL"
  shows "CW_breakdownWithDate gt startTime endTime plat net s =
       sendRequest
         (js ''/crm/cod/v2/title/cw/platform/'' @ plat @ js ''/gamer/'' @ gt @
          js ''/matches/mp/start/'' @ numberToString startTime @ js ''/end/'' @
          numberToString endTime) net s"
  using assms
  by (simp add: CW_breakdownWithDate_def legacyCall_sentinel Endpoints_breakdownWithDate_def
      new_Endpoints_def tpl_def enum_defs js_def)

lemma CW_seasonloot_sentinel:
  assumes "plat = platforms_All \<or> plat = platforms_NULL"
  shows "CW_seasonloot gt plat net s =
       sendRequest
         (js ''/loot/title/cw/platform/'' @ plat @ js ''/gamer/'' @ gt @ js ''/status/en'') net s"
  using assms
  by (simp add: CW_seasonloot_def legacyCall_sentinel Endpoints_seasonLoot_def
      new_Endpoints_def tpl_def enum_defs js_def)

lemma CW_mapList_sentinel:
  assumes "plat = platforms_All \<or> plat = platforms_NULL"
  shows "CW_mapList plat net s =
       sendRequest
         (js ''/ce/v1/title/cw/platform/'' @ plat @
          js ''/gameType/mp/communityMapData/availability'') net s"
  using assms
  by (simp add: CW_mapList_def legacyCall_sentinel Endpoints_mapList_def
      new_Endpoints_def tpl_def enum_defs js_def)

lemma CW_matchInfo_sentinel:
  assumes "plat = platforms_All \<or> plat = platforms_NULL"
  shows "CW_matchInfo matchId plat net s =
       sendRequest
         (js ''/crm/cod/v2/title/cw/platform/'' @ plat @ js ''/fullMatch/wz/'' @ matchId @
          js ''/en'') net s"
  using assms
  by (simp add: CW_matchInfo_def legacyCall_sentinel Endpoints_matchInfo_def
      new_Endpoints_def tpl_def enum_defs js_def)

lemma VG_fullData_sentinel:
  assumes "plat = platforms_All \<or> plat = platforms_NULL"
  shows "VG_fullData gt plat net s =
       sendRequest
         (js ''/stats/cod/v1/title/vg/platform/'' @ plat @ js ''/gamer/'' @ gt @
          js ''/profile/type/mp'') net s"
  using assms
  by (simp add: VG_fullData_def legacyCall_sentinel Endpoints_fullData_def
      new_Endpoints_def tpl_def enum_defs js_def)

lemma VG_combatHistory_sentinel:
  assumes "plat = platforms_All \<or> plat = platforms_NULL"
  shows "VG_combatHistory gt plat net s =
       sendRequest
         (js ''/crm/cod/v2/title/vg/platform/'' @ plat @ js ''/gamer/'' @ gt @
          js ''/matches/mp/start/0/end/0/details'') net s"
  using assms
  by (simp add: VG_combatHistory_def legacyCall_sentinel Endpoints_combatHistory_def
      new_Endpoints_def tpl_def enum_defs js_def)

lemma VG_combatHistoryWithDate_sentinel:
  assumes "plat = platforms_All \<or> plat = platforms_NULL"
  shows "VG_combatHistoryWithDate gt startTime endTime plat net s =
       sendRequest
         (js ''/crm/cod/v2/title/vg/platform/'' @ plat @ js ''/gamer/'' @ gt @
          js ''/matches/mp/start/'' @ numberToString startTime @ js ''/end/'' @
          numberToString endTime @ js ''/details'') net s"
  using assms
  by (simp add: VG_combatHistoryWithDate_def legacyCall_sentinel Endpoints_combatHistoryWithDate_def
      new_Endpoints_def tpl_def enum_defs js_def)

lemma VG_breakdown_sentinel:
  assumes "plat = platforms_All \<or> plat = platforms_NULL"
  shows "VG_breakdown gt plat net s =
       sendRequest
         (js ''/crm/cod/v2/title/vg/platform/'' @ plat @ js ''/gamer/'' @ gt @
          js ''/matches/mp/start/0/end/0'') net s"
  using assms
  by (simp add: VG_breakdown_def legacyCall_sentinel Endpoints_breakdown_def
      new_Endpoints_def tpl_def enum_defs js_def)

lemma VG_breakdownWithDate_sentinel:
  assumes "plat = platforms_All \<or> plat = platforms_NULL"
  shows "VG_breakdownWithDate gt startTime endTime plat net s =
       sendRequest
         (js ''/crm/cod/v2/title/vg/platform/'' @ plat @ js ''/gamer/'' @ gt @
          js ''/matches/mp/start/'' @ numberToString startTime @ js ''/end/'' @
          numberToString endTime) net s"
  using assms
  by (simp add: VG_breakdownWithDate_def legacyCall_sentinel Endpoints_breakdownWithDate_def
      new_Endpoints_def tpl_def enum_defs js_def)

lemma VG_seasonloot_sentinel:
  assumes "plat = platforms_All \<or> plat = platforms_NULL"
  shows "VG_seasonloot gt plat net s =
       sendRequest
         (js ''/loot/title/vg/platform/'' @ plat @ js ''/gamer/'' @ gt @ js ''/status/en'') net s"
  using assms
  by (simp add: VG_seasonloot_def legacyCall_sentinel Endpoints_seasonLoot_def
      new_Endpoints_def tpl_def enum_defs js_def)

lemma VG_mapList_sentinel:
  assumes "plat = platforms_All \<or> plat = platforms_NULL"
  shows "VG_mapList plat net s =
       sendRequest
         (js ''/ce/v1/title/vg/platform/'' @ plat @
          js ''/gameType/mp/communityMapData/availability'') net s"
  using assms
  by (simp add: VG_mapList_def legacyCall_sentinel Endpoints_mapList_def
      new_Endpoints_def tpl_def enum_defs js_def)

lemma VG_matchInfo_sentinel:
  assumes "plat = platforms_All \<or> plat = platforms_NULL"
  shows "VG_matchInfo matchId plat net s =
       sendRequest
         (js ''/crm/cod/v2/title/vg/platform/'' @ plat @ js ''/fullMatch/wz/'' @ matchId @
          js ''/en'') net s"
  using assms
  by (simp add: VG_matchInfo_def legacyCall_sentinel Endpoints_matchInfo_def
      new_Endpoints_def tpl_def enum_defs js_def)

lemma SHOP_battlePassLoot_sentinel:
  assumes "plat = platforms_All \<or> plat = platforms_NULL"
  shows "SHOP_battlePassLoot title season plat net s =
       sendRequest
         (js ''/loot/title/'' @ title @ js ''/platform/'' @ plat @
          js ''/list/loot_season_'' @ numberToString season @ js ''/en'') net s"
  using assms
  by (simp add: SHOP_battlePassLoot_def legacyCall_sentinel Endpoints_battlePassLoot_def
      new_Endpoints_def tpl_def enum_defs js_def)

lemma USER_friendFeed_sentinel:
  assumes "plat = platforms_All \<or> plat = platforms_NULL"
  shows "USER_friendFeed gt plat net s =
       sendRequest
         (js ''/userfeed/v1/friendFeed/platform/'' @ plat @ js ''/gamer/'' @ gt @
          js ''/friendFeedEvents/en'') net s"
  using assms
  by (simp add: USER_friendFeed_def legacyCall_sentinel Endpoints_friendFeed_def
      new_Endpoints_def tpl_def enum_defs js_def)

lemma USER_codPoints_sentinel:
  assumes "plat = platforms_All \<or> plat = platforms_NULL"
  shows "USER_codPoints gt plat net s =
       sendRequest
         (js ''/inventory/v1/title/mw/platform/'' @ plat @ js ''/gamer/'' @ gt @
          js ''/currency'') net s"
  using assms
  by (simp add: USER_codPoints_def legacyCall_sentinel Endpoints_codPoints_def
      new_Endpoints_def tpl_def enum_defs js_def)

lemma USER_connectedAccounts_sentinel:
  assumes "plat = platforms_All \<or> plat = platforms_NULL"
  shows "USER_connectedAccounts gt plat net s =
       sendRequest
         (js ''/crm/cod/v2/accounts/platform/'' @ plat @ js ''/gamer/'' @ gt) net s"
  using assms
  by (simp add: USER_connectedAccounts_def legacyCall_sentinel Endpoints_connectedAccounts_def
      new_Endpoints_def tpl_def enum_defs js_def)

lemma USER_settings_sentinel:
  assumes "plat = platforms_All \<or> plat = platforms_NULL"
  shows "USER_settings gt plat net s =
       sendRequest
         (js ''/preferences/v1/platform/'' @ plat @ js ''/gamer/'' @ gt @ js ''/list'') net s"
  using assms
  by (simp add: USER_settings_def legacyCall_sentinel Endpoints_settings_def
      new_Endpoints_def tpl_def enum_defs js_def)

lemma USER_friendAction_sentinel:
  assumes "plat = platforms_All \<or> plat = platforms_NULL"
  shows "USER_friendAction gt plat action net s =
       sendPostRequest
         (js ''/codfriends/v1/'' @ action @ js ''/'' @ plat @ js ''/gamer/'' @ gt) (js ''{}'') net s"
  using assms
  by (simp add: USER_friendAction_def sentinel_resolution Endpoints_friendAction_def
      new_Endpoints_def tpl_def enum_defs js_def)

lemma ALT_search_sentinel:
  assumes "plat = platforms_All \<or> plat = platforms_NULL"
  shows "ALT_search gt plat net s =
       sendRequest
         (js ''/crm/cod/v2/platform/'' @ plat @ js ''/username/'' @ gt @ js ''/search'') net s"
  using assms
  by (simp add: ALT_search_def legacyCall_sentinel Endpoints_search_def
      new_Endpoints_def tpl_def enum_defs js_def)

lemma uno_message_distinct:
  "invalidPlatformMessage plat \<noteq> generics_UNO_NO_NUMERICAL_ID"
  "generics_STEAM_UNSUPPORTED \<noteq> generics_UNO_NO_NUMERICAL_ID"
  by (simp_all add: invalidPlatformMessage_def generics_UNO_NO_NUMERICAL_ID_def
      generics_STEAM_UNSUPPORTED_def js_def)

lemma numerical_id_error_only_uno:
  assumes "plat \<noteq> platforms_Uno"
  shows "mapGamertagToPlatform h plat ss \<noteq> Inl (Error generics_UNO_NO_NUMERICAL_ID)"
proof
  assume a: "mapGamertagToPlatform h plat ss = Inl (Error generics_UNO_NO_NUMERICAL_ID)"
  show False
  proof (cases "plat \<in> set platforms_values")
    case False
    with a show False
      by (simp add: mapGamertagToPlatform_def checkForValidPlatform_def uno_message_distinct)
  next
    case True
    with assms have c: "checkForValidPlatform plat (Some h) = Inr ()"
      by (simp add: checkForValidPlatform_def)
    from a show False
      unfolding mapGamertagToPlatform_def c Let_def
      by (auto simp: uno_message_distinct cleanClientName_def
          split: if_splits sum.splits dest: encode_error)
  qed
qed

section \<open>Endpoint templating: the claims\<close>

text \<open>
  Claim C5. For every legacy-backed title, match id and platform, the match-detail path
  has the fixed literal \<open>wz\<close> as its mode segment, whatever the mode of the requesting
  title. The builder ignores the mode field of \<open>Endpoints\<close>: its path is the title and
  platform prefix followed by \<open>/fullMatch/wz/\<close>, the match id and \<open>/en\<close>. The four
  legacy classes (WZ with mode \<open>wz\<close>; MW, CW and VG with mode \<open>mp\<close>) all send that path
  once the platform has been resolved.
\<close>

theorem C5_matchInfo_fixed_mode_literal:
  "Endpoints_matchInfo e matchId =
     js ''/crm/cod/v2/title/'' @ tpl (game e) @ js ''/platform/'' @ tpl (platform e) @
     js ''/fullMatch/wz/'' @ matchId @ js ''/en''
   \<and> Endpoints_matchInfo (e\<lparr> mode := m \<rparr>) matchId = Endpoints_matchInfo e matchId
   \<and> WZ_matchInfo matchId plat net s =
       (case mapGamertagToPlatform [] plat False of
          Inl err \<Rightarrow> (Inl err, s)
        | Inr i \<Rightarrow>
            sendRequest
              (js ''/crm/cod/v2/title/mw/platform/'' @ r_platform i @ js ''/fullMatch/wz/'' @
               matchId @ js ''/en'') net s)
   \<and> MW_matchInfo matchId plat net s =
       (case mapGamertagToPlatform [] plat False of
          Inl err \<Rightarrow> (Inl err, s)
        | Inr i \<Rightarrow>
            sendRequest
              (js ''/crm/cod/v2/title/mw/platform/'' @ r_platform i @ js ''/fullMatch/wz/'' @
               matchId @ js ''/en'') net s)
   \<and> CW_matchInfo matchId plat net s =
       (case mapGamertagToPlatform [] plat False of
          Inl err \<Rightarrow> (Inl err, s)
        | Inr i \<Rightarrow>
            sendRequest
              (js ''/crm/cod/v2/title/cw/platform/'' @ r_platform i @ js ''/fullMatch/wz/'' @
               matchId @ js ''/en'') net s)
   \<and> VG_matchInfo matchId plat net s =
       (case mapGamertagToPlatform [] plat False of
          Inl err \<Rightarrow> (Inl err, s)
        | Inr i \<Rightarrow>
            sendRequest
              (js ''/crm/cod/v2/title/vg/platform/'' @ r_platform i @ js ''/fullMatch/wz/'' @
               matchId @ js ''/en'') net s)"
proof -
  have builder: "Endpoints_matchInfo e matchId =
     js ''/crm/cod/v2/title/'' @ tpl (game e) @ js ''/platform/'' @ tpl (platform e) @
     js ''/fullMatch/wz/'' @ matchId @ js ''/en''"
    by (simp add: Endpoints_matchInfo_def)
  have indep: "Endpoints_matchInfo (e\<lparr> mode := m \<rparr>) matchId = Endpoints_matchInfo e matchId"
    by (simp add: Endpoints_matchInfo_def)
  have wz: "WZ_matchInfo matchId plat net s =
       (case mapGamertagToPlatform [] plat False of
          Inl err \<Rightarrow> (Inl err, s)
        | Inr i \<Rightarrow>
            sendRequest
              (js ''/crm/cod/v2/title/mw/platform/'' @ r_platform i @ js ''/fullMatch/wz/'' @
               matchId @ js ''/en'') net s)"
    by (simp add: WZ_matchInfo_def legacyCall_def matchInfo_path games_ModernWarfare_def js_def
        split: sum.splits)
  have mw: "MW_matchInfo matchId plat net s =
       (case mapGamertagToPlatform [] plat False of
          Inl err \<Rightarrow> (Inl err, s)
        | Inr i \<Rightarrow>
            sendRequest
              (js ''/crm/cod/v2/title/mw/platform/'' @ r_platform i @ js ''/fullMatch/wz/'' @
               matchId @ js ''/en'') net s)"
    by (simp add: MW_matchInfo_def legacyCall_def matchInfo_path games_ModernWarfare_def js_def
        split: sum.splits)
  have cw: "CW_matchInfo matchId plat net s =
       (case mapGamertagToPlatform [] plat False of
          Inl err \<Rightarrow> (Inl err, s)
        | Inr i \<Rightarrow>
            sendRequest
              (js ''/crm/cod/v2/title/cw/platform/'' @ r_platform i @ js ''/fullMatch/wz/'' @
               matchId @ js ''/en'') net s)"
    by (simp add: CW_matchInfo_def legacyCall_def matchInfo_path games_ColdWar_def js_def
        split: sum.splits)
  have vg: "VG_matchInfo matchId plat net s =
       (case mapGamertagToPlatform [] plat False of
          Inl err \<Rightarrow> (Inl err, s)
        | Inr i \<Rightarrow>
            sendRequest
              (js ''/crm/cod/v2/title/vg/platform/'' @ r_platform i @ js ''/fullMatch/wz/'' @
               matchId @ js ''/en'') net s)"
    by (simp add: VG_matchInfo_def legacyCall_def matchInfo_path games_Vanguard_def js_def
        split: sum.splits)
  from builder indep wz mw cw vg show ?thesis by blast
qed

text \<open>
  The builder at the \<open>Endpoints\<close> object that \<open>MW.matchInfo\<close> constructs for the platform
  \<open>psn\<close> (mode \<open>mp\<close>) and the match id \<open>42\<close>.
\<close>

theorem C5_matchInfo_fixed_mode_literal_witness:
  "Endpoints_matchInfo
     (new_Endpoints games_ModernWarfare [] platforms_PSN modes_Multiplayer (js ''gamer''))
     (js ''42'') = js ''/crm/cod/v2/title/mw/platform/psn/fullMatch/wz/42/en''"
  using C5_matchInfo_fixed_mode_literal
    [of "new_Endpoints games_ModernWarfare [] platforms_PSN modes_Multiplayer (js ''gamer'')"
        "js ''42''"]
  by (simp add: new_Endpoints_def tpl_def enum_defs js_def)

text \<open>
  Claim C6. For every title, gamertag, platform, lookup kind and mode, the
  combat-history-with-date path builder applied to the window (0, 0) gives the same path
  as the plain combat-history builder; so the dated method of each legacy class, called
  with that window, is the plain method.
\<close>

theorem C6_combatHistoryWithDate_zero_window:
  "Endpoints_combatHistoryWithDate e 0 0 = Endpoints_combatHistory e
   \<and> WZ_combatHistoryWithDate gt 0 0 plat net s = WZ_combatHistory gt plat net s
   \<and> MW_combatHistoryWithDate gt 0 0 plat net s = MW_combatHistory gt plat net s
   \<and> CW_combatHistoryWithDate gt 0 0 plat net s = CW_combatHistory gt plat net s
   \<and> VG_combatHistoryWithDate gt 0 0 plat net s = VG_combatHistory gt plat net s"
  by (simp add: combatHistoryWithDate_0_0
      WZ_combatHistoryWithDate_def WZ_combatHistory_def
      MW_combatHistoryWithDate_def MW_combatHistory_def
      CW_combatHistoryWithDate_def CW_combatHistory_def
      VG_combatHistoryWithDate_def VG_combatHistory_def)

theorem C6_combatHistoryWithDate_zero_window_witness:
  "Endpoints_combatHistoryWithDate
     (new_Endpoints games_ModernWarfare (js ''Player'') platforms_PSN modes_Warzone (js ''gamer''))
     0 0 = js ''/crm/cod/v2/title/mw/platform/psn/gamer/Player/matches/wz/start/0/end/0/details''"
  using C6_combatHistoryWithDate_zero_window
    [of "new_Endpoints games_ModernWarfare (js ''Player'') platforms_PSN modes_Warzone
           (js ''gamer'')"]
  by (simp add: Endpoints_combatHistory_def new_Endpoints_def tpl_def enum_defs js_def)

section \<open>Identity resolution: the claims\<close>

text \<open>
  Claim C7. Identity resolution with the restricted platform \<open>steam\<close> fails with the
  Steam-unsupported error for every handle when the override flag is false (the default),
  and succeeds when the override is passed, keeping handle and platform and giving the
  lookup kind \<open>gamer\<close>. The fuzzy search passes the override: \<open>ALT.search\<close> on \<open>steam\<close>
  goes on to send the search path of that platform.
\<close>

theorem C7_steam_needs_override:
  "mapGamertagToPlatform gt platforms_Steam False = Inl (Error generics_STEAM_UNSUPPORTED)
   \<and> mapGamertagToPlatform gt platforms_Steam True =
       Inr \<lparr> r_gamertag = gt, r_platform = platforms_Steam, r_lookupType = js ''gamer'' \<rparr>
   \<and> ALT_search gt platforms_Steam net s =
       sendRequest (js ''/crm/cod/v2/platform/steam/username/'' @ gt @ js ''/search'') net s
   \<and> WZ_fullData gt platforms_Steam net s = (Inl (Error generics_STEAM_UNSUPPORTED), s)"
proof -
  have search: "ALT_search gt platforms_Steam net s =
       sendRequest (js ''/crm/cod/v2/platform/steam/username/'' @ gt @ js ''/search'') net s"
    by (simp add: ALT_search_def legacyCall_def steam_with_support Endpoints_search_def
        new_Endpoints_def tpl_def) (simp add: enum_defs js_def)
  have wz: "WZ_fullData gt platforms_Steam net s = (Inl (Error generics_STEAM_UNSUPPORTED), s)"
    by (simp add: WZ_fullData_def legacyCall_def steam_without_support)
  from steam_without_support steam_with_support search wz show ?thesis by blast
qed

theorem C7_steam_needs_override_witness:
  "mapGamertagToPlatform (js ''Player'') (js ''steam'') False =
     Inl (Error generics_STEAM_UNSUPPORTED)
   \<and> mapGamertagToPlatform (js ''Player'') (js ''steam'') True =
       Inr \<lparr> r_gamertag = js ''Player'', r_platform = js ''steam'',
             r_lookupType = js ''gamer'' \<rparr>"
  using C7_steam_needs_override [of "js ''Player''"]
  by (simp add: platforms_Steam_def)

text \<open>
  Claim C3, as stated, fails. The handles \<open>1e5\<close>, \<open>Infinity\<close> and the single space
  are non-empty and not purely numeric (each has a code unit that is no decimal digit),
  and resolution under \<open>uno\<close> accepts all three, because the check is
  \<open>isNaN(Number(gamertag))\<close> and \<open>Number\<close> gives 100000, infinity and 0 for them.
\<close>

theorem C3_counterexample:
  "js ''1e5'' \<noteq> [] \<and> \<not> list_all isDecimalDigit (js ''1e5'') \<and>
   checkForValidPlatform platforms_Uno (Some (js ''1e5'')) = Inr () \<and>
   mapGamertagToPlatform (js ''1e5'') platforms_Uno False =
     Inr \<lparr> r_gamertag = js ''1e5'', r_platform = js ''uno'', r_lookupType = js ''id'' \<rparr> \<and>
   js ''Infinity'' \<noteq> [] \<and> \<not> list_all isDecimalDigit (js ''Infinity'') \<and>
   mapGamertagToPlatform (js ''Infinity'') platforms_Uno False =
     Inr \<lparr> r_gamertag = js ''Infinity'', r_platform = js ''uno'', r_lookupType = js ''id'' \<rparr> \<and>
   js '' '' \<noteq> [] \<and> \<not> list_all isDecimalDigit (js '' '') \<and>
   mapGamertagToPlatform (js '' '') platforms_Uno False =
     Inr \<lparr> r_gamertag = js ''%20'', r_platform = js ''uno'', r_lookupType = js ''id'' \<rparr>"
  by code_simp

text \<open>
  Claim C3, amended. Under the numeric-ID platform \<open>uno\<close>, resolution fails with the
  numerical-ID error exactly when the handle is non-empty and \<open>Number(handle)\<close> is NaN,
  that is, when the handle is not a JavaScript numeric literal; no other platform gives
  that error. Every purely numeric handle is accepted, and every handle with a code unit
  that occurs in no numeric literal (a letter such as \<open>P\<close>, or \<open>#\<close>) is rejected;
  handles such as \<open>1e5\<close>, which are literals without being purely numeric, are
  accepted.
\<close>

theorem C3_uno_rejects_exactly_non_numbers:
  "(mapGamertagToPlatform h platforms_Uno ss = Inl (Error generics_UNO_NO_NUMERICAL_ID))
     = (h \<noteq> [] \<and> isNaN_Number h)
   \<and> (checkForValidPlatform platforms_Uno (Some h) = Inl (Error generics_UNO_NO_NUMERICAL_ID))
     = (h \<noteq> [] \<and> isNaN_Number h)
   \<and> (plat \<noteq> platforms_Uno \<longrightarrow>
        mapGamertagToPlatform h plat ss \<noteq> Inl (Error generics_UNO_NO_NUMERICAL_ID))
   \<and> (list_all isDecimalDigit h \<longrightarrow> \<not> isNaN_Number h)
   \<and> ((\<exists>c \<in> set h. \<not> isNumericLiteralChar c) \<longrightarrow> isNaN_Number h)"
proof -
  have "(checkForValidPlatform platforms_Uno (Some h) =
          Inl (Error generics_UNO_NO_NUMERICAL_ID)) = (h \<noteq> [] \<and> isNaN_Number h)"
    by (simp add: checkForValidPlatform_uno)
  moreover have "(\<exists>c \<in> set h. \<not> isNumericLiteralChar c) \<longrightarrow> isNaN_Number h"
    unfolding isNaN_Number_def using numeric_literal_chars by blast
  ultimately show ?thesis
    using uno_rejects_iff [of h ss] digits_number [of h]
      numerical_id_error_only_uno [of plat h ss]
    by blast
qed

theorem C3_uno_rejects_exactly_non_numbers_witness:
  "mapGamertagToPlatform (js ''Player#1234567'') platforms_Uno False =
     Inl (Error generics_UNO_NO_NUMERICAL_ID)
   \<and> mapGamertagToPlatform (js ''1234567'') platforms_Uno False \<noteq>
     Inl (Error generics_UNO_NO_NUMERICAL_ID)
   \<and> mapGamertagToPlatform (js ''Player#1234567'') platforms_Activision False \<noteq>
     Inl (Error generics_UNO_NO_NUMERICAL_ID)"
proof -
  have a: "\<exists>c \<in> set (js ''Player#1234567''). \<not> isNumericLiteralChar c"
    by (simp add: js_def isNumericLiteralChar_def isStrWhiteSpaceChar_def isHexDigit_def)
  have b: "list_all isDecimalDigit (js ''1234567'')"
    by (simp add: js_def isDecimalDigit_def)
  have c: "js ''Player#1234567'' \<noteq> []"
    by (simp add: js_def)
  have d: "platforms_Activision \<noteq> platforms_Uno"
    by (simp add: enum_defs js_def)
  from a b c d show ?thesis
    using C3_uno_rejects_exactly_non_numbers
        [of "js ''Player#1234567''" False platforms_Activision]
      C3_uno_rejects_exactly_non_numbers [of "js ''1234567''" False]
    by blast
qed

text \<open>
  Claim C4. For every numeric handle (decimal digits only), resolving it under the alias
  platform \<open>acti\<close> and under the numeric-ID platform \<open>uno\<close> gives the same wire platform
  \<open>uno\<close> and the same handle, but the lookup kind is \<open>gamer\<close> for \<open>acti\<close> and \<open>id\<close> for
  \<open>uno\<close>.
\<close>

theorem C4_alias_and_uno_same_wire_platform:
  assumes "list_all isDecimalDigit h"
  shows "mapGamertagToPlatform h platforms_Activision ss =
           Inr \<lparr> r_gamertag = h, r_platform = platforms_Uno, r_lookupType = js ''gamer'' \<rparr>
         \<and> mapGamertagToPlatform h platforms_Uno ss =
           Inr \<lparr> r_gamertag = h, r_platform = platforms_Uno, r_lookupType = js ''id'' \<rparr>
         \<and> js ''gamer'' \<noteq> js ''id''"
  using assms by (simp add: acti_digits_resolution uno_digits_resolution) (simp add: js_def)

theorem C4_alias_and_uno_same_wire_platform_witness:
  "mapGamertagToPlatform (js ''1234567'') (js ''acti'') False =
     Inr \<lparr> r_gamertag = js ''1234567'', r_platform = js ''uno'', r_lookupType = js ''gamer'' \<rparr>
   \<and> mapGamertagToPlatform (js ''1234567'') (js ''uno'') False =
     Inr \<lparr> r_gamertag = js ''1234567'', r_platform = js ''uno'', r_lookupType = js ''id'' \<rparr>"
proof -
  have "list_all isDecimalDigit (js ''1234567'')"
    by (simp add: js_def isDecimalDigit_def)
  from C4_alias_and_uno_same_wire_platform [OF this, of False]
  show ?thesis by (simp add: platforms_Activision_def platforms_Uno_def)
qed

section \<open>Session manager: the claims\<close>

text \<open>
  Claim C2. Both logins fail closed on missing credentials. \<open>login\<close> with the empty
  token, or with any token whose trimmed form is empty (a token of white space only),
  returns false and leaves the session as it was; \<open>telescopeLogin\<close> with an empty
  username or an empty password returns false and leaves the session as it was. The
  session includes the trace of network calls, so no call is made.
\<close>

theorem C2_logins_fail_closed:
  "login [] s = (False, s)
   \<and> (trim tok = [] \<longrightarrow> login tok s = (False, s))
   \<and> (list_all isStrWhiteSpaceChar tok \<longrightarrow> login tok s = (False, s))
   \<and> (u = [] \<or> p = [] \<longrightarrow> telescopeLogin u p net s = (Inr False, s))"
proof -
  have "login [] s = (False, s)" by (simp add: login_def)
  moreover have "trim tok = [] \<longrightarrow> login tok s = (False, s)"
    by (simp add: login_blank)
  moreover have "list_all isStrWhiteSpaceChar tok \<longrightarrow> login tok s = (False, s)"
    by (simp add: login_blank trim_empty_iff)
  moreover have "u = [] \<or> p = [] \<longrightarrow> telescopeLogin u p net s = (Inr False, s)"
    using telescopeLogin_missing by blast
  ultimately show ?thesis by blast
qed

theorem C2_logins_fail_closed_witness:
  "login (js ''   '') init_session = (False, init_session)
   \<and> telescopeLogin (js ''user@example.com'') [] (respondWith 200 None) init_session =
       (Inr False, init_session)
   \<and> telescopeLogin [] (js ''secret'') (respondWith 200 None) init_session =
       (Inr False, init_session)"
proof -
  have "list_all isStrWhiteSpaceChar (js ''   '')"
    by (simp add: js_def isStrWhiteSpaceChar_def)
  then show ?thesis
    using C2_logins_fail_closed [of init_session "js ''   ''" "js ''user@example.com''" "[]"
        "respondWith 200 None"]
      C2_logins_fail_closed [of init_session "js ''   ''" "[]" "js ''secret''"
        "respondWith 200 None"]
    by blast
qed

text \<open>
  Claim C9. For every token whose trimmed form is non-empty, whatever its content,
  \<open>login\<close> returns true and marks the session logged in without a network call (the
  trace is unchanged), stores the token, and leaves the telescope headers, the telescope
  token and the debug switch alone. The legacy header objects are those of the session
  with the six login properties assigned; in every reachable session that makes them
  \<open>loginHeaderSet\<close> of the token and the content type, a function of the token alone.
\<close>

theorem C9_legacy_login_from_token_alone:
  assumes "trim tok \<noteq> []"
  shows "fst (login tok s) = True
   \<and> loggedIn (snd (login tok s))
   \<and> trace (snd (login tok s)) = trace s
   \<and> baseSsoToken (snd (login tok s)) = tok
   \<and> baseHeaders (snd (login tok s)) = setLoginHeaders tok (baseHeaders s)
   \<and> basePostHeaders (snd (login tok s)) = setLoginHeaders tok (basePostHeaders s)
   \<and> baseTelescopeHeaders (snd (login tok s)) = baseTelescopeHeaders s
   \<and> telescopeUnoToken (snd (login tok s)) = telescopeUnoToken s
   \<and> debugMode (snd (login tok s)) = debugMode s
   \<and> (s \<in> reachable \<longrightarrow>
        baseHeaders (snd (login tok s)) = loginHeaderSet (js ''application/json'') tok \<and>
        basePostHeaders (snd (login tok s)) = loginHeaderSet (js ''text/plain'') tok)"
  using login_reachable_headers [OF assms, of s]
  by (simp add: login_nonblank [OF assms])

theorem C9_legacy_login_from_token_alone_witness:
  "fst (login (js ''TOK'') init_session) = True
   \<and> loggedIn (snd (login (js ''TOK'') init_session))
   \<and> trace (snd (login (js ''TOK'') init_session)) = trace init_session
   \<and> baseHeaders (snd (login (js ''TOK'') init_session)) =
       loginHeaderSet (js ''application/json'') (js ''TOK'')"
proof -
  have "trim (js ''TOK'') \<noteq> []"
    by (simp add: trim_def js_def isStrWhiteSpaceChar_def)
  from C9_legacy_login_from_token_alone [OF this, of init_session] r_init
  show ?thesis by blast
qed

text \<open>
  Claim C1, as stated, fails. From the initial session, a legacy login alone lets the
  telescope-backed \<open>ModernWarfare2.fullData\<close> through the login check: the request is
  sent and its JSON answer returned. And a telescope login answered with status 401
  clears the flag that the legacy login had set, so the legacy-backed
  \<open>Warzone.fullData\<close> then fails as not logged in.
\<close>

theorem C1_counterexample:
  "fst (MW2_fullData (js ''1234567'') (respondWith 200 (Some (JObj [])))
          (snd (login (js ''TOK'') init_session))) = Inr (JObj [])
   \<and> fst (WZ_fullData (js ''Player'') (js ''psn'') (respondWith 200 (Some (JObj [])))
          (snd (telescopeLogin (js ''user@example.com'') (js ''secret'') (respondWith 401 None)
            (snd (login (js ''TOK'') init_session))))) = Inl (Error (js ''Not Logged In.''))"
proof -
  define s1 where "s1 = snd (login (js ''TOK'') init_session)"
  have tok: "trim (js ''TOK'') \<noteq> []"
    by (simp add: trim_def js_def isStrWhiteSpaceChar_def)
  have li: "loggedIn s1" and ut: "telescopeUnoToken s1 = Some (JStr [])"
    by (simp_all add: s1_def login_nonblank [OF tok] init_session_def)
  have "list_all isDecimalDigit (js ''1234567'')"
    by (simp add: js_def isDecimalDigit_def)
  then have r: "mapGamertagToPlatform (js ''1234567'') platforms_Uno True =
      Inr \<lparr> r_gamertag = js ''1234567'', r_platform = platforms_Uno,
            r_lookupType = js ''id'' \<rparr>"
    by (rule uno_digits_resolution)
  have a: "fst (MW2_fullData (js ''1234567'') (respondWith 200 (Some (JObj []))) s1) =
      Inr (JObj [])"
    by (simp add: MW2_fullData_def telescopeCall_def r sendTelescopeRequest_passes_gate [OF li]
        ut toStringValue_def fst_dispatch_json)
  have out: "\<not> loggedIn (snd (telescopeLogin (js ''user@example.com'') (js ''secret'')
      (respondWith 401 None) s1))"
    by (simp add: telescopeLogin_def respondWith_def Let_def js_def)
  have b: "fst (WZ_fullData (js ''Player'') (js ''psn'') (respondWith 200 (Some (JObj [])))
      (snd (telescopeLogin (js ''user@example.com'') (js ''secret'') (respondWith 401 None) s1))) =
      Inl (Error (js ''Not Logged In.''))"
    using psn_resolution [of "js ''Player''" False]
    by (simp add: WZ_fullData_def legacyCall_def platforms_PSN_def not_logged_in(1) [OF out])
  from a b show ?thesis by (simp add: s1_def)
qed

text \<open>
  Claim C1, amended. Legacy and telescope operations share one login flag. In every
  session (so after every sequence of logins) a dispatcher of either backend called
  while the flag is false fails with the not-logged-in error and changes nothing, no
  network call included; while the flag is true the legacy dispatchers go on to the
  network and the telescope dispatcher renders its bearer token and does the same,
  whichever login set the flag. A legacy login with a non-blank token sets the flag,
  one with a blank token leaves it; a telescope login without credentials leaves it, one
  that throws leaves it, and one that returns sets it to its result, which is whether the
  answer had status 200.
\<close>

theorem C1_one_shared_login_flag:
  "(\<not> loggedIn s \<longrightarrow>
      sendRequest url net s = (Inl (Error (js ''Not Logged In.'')), s) \<and>
      sendPostRequest url d net s = (Inl (Error (js ''Not Logged In.'')), s) \<and>
      sendTelescopeRequest url net s = (Inl (Error (js ''Not Logged In!'')), s))
   \<and> (loggedIn s \<longrightarrow>
      sendRequest url net s =
        dispatch \<lparr> req_url = baseUrl @ apiPath @ url, req_method = GET,
                   req_headers = baseHeaders s, req_body = None \<rparr> net s \<and>
      sendPostRequest url d net s =
        dispatch \<lparr> req_url = baseUrl @ apiPath @ url, req_method = POST,
                   req_headers = basePostHeaders s, req_body = Some (Text d) \<rparr> net s \<and>
      sendTelescopeRequest url net s =
        (case toStringValue (telescopeUnoToken s) of
           Inl e \<Rightarrow> (Inl e, s)
         | Inr t \<Rightarrow>
             dispatch \<lparr> req_url = baseTelescopeUrl @ apiTelescopePath @ url,
                        req_method = GET,
                        req_headers = AList.update (js ''authorization'') (js ''Bearer '' @ t)
                                        (baseTelescopeHeaders s),
                        req_body = None \<rparr> net
               (s\<lparr> baseTelescopeHeaders :=
                     AList.update (js ''authorization'') (js ''Bearer '' @ t)
                       (baseTelescopeHeaders s) \<rparr>)))
   \<and> (trim tok \<noteq> [] \<longrightarrow> loggedIn (snd (login tok s)))
   \<and> (trim tok = [] \<longrightarrow> loggedIn (snd (login tok s)) = loggedIn s)
   \<and> (u = [] \<or> p = [] \<longrightarrow> loggedIn (snd (telescopeLogin u p net s)) = loggedIn s)
   \<and> (telescopeLogin u p net s = (Inl e, s') \<longrightarrow> loggedIn s' = loggedIn s)
   \<and> (u \<noteq> [] \<and> p \<noteq> [] \<and> telescopeLogin u p net s = (Inr b, s') \<longrightarrow>
        loggedIn s' = b \<and>
        (\<exists>resp. net \<lparr> req_url = telescope_login_endpoint, req_method = POST,
                       req_headers = baseHeaders s,
                       req_body = Some (Stringified (telescopeLoginBody u p)) \<rparr> = Inr resp \<and>
                b = (statusCode resp = 200)))"
proof -
  have gate: "\<not> loggedIn s \<longrightarrow>
      sendRequest url net s = (Inl (Error (js ''Not Logged In.'')), s) \<and>
      sendPostRequest url d net s = (Inl (Error (js ''Not Logged In.'')), s) \<and>
      sendTelescopeRequest url net s = (Inl (Error (js ''Not Logged In!'')), s)"
    by (simp add: not_logged_in)
  have pass: "loggedIn s \<longrightarrow>
      sendRequest url net s =
        dispatch \<lparr> req_url = baseUrl @ apiPath @ url, req_method = GET,
                   req_headers = baseHeaders s, req_body = None \<rparr> net s \<and>
      sendPostRequest url d net s =
        dispatch \<lparr> req_url = baseUrl @ apiPath @ url, req_method = POST,
                   req_headers = basePostHeaders s, req_body = Some (Text d) \<rparr> net s \<and>
      sendTelescopeRequest url net s =
        (case toStringValue (telescopeUnoToken s) of
           Inl e \<Rightarrow> (Inl e, s)
         | Inr t \<Rightarrow>
             dispatch \<lparr> req_url = baseTelescopeUrl @ apiTelescopePath @ url,
                        req_method = GET,
                        req_headers = AList.update (js ''authorization'') (js ''Bearer '' @ t)
                                        (baseTelescopeHeaders s),
                        req_body = None \<rparr> net
               (s\<lparr> baseTelescopeHeaders :=
                     AList.update (js ''authorization'') (js ''Bearer '' @ t)
                       (baseTelescopeHeaders s) \<rparr>))"
    by (simp add: sendRequest_logged_in sendPostRequest_logged_in
        sendTelescopeRequest_passes_gate)
  have l1: "trim tok \<noteq> [] \<longrightarrow> loggedIn (snd (login tok s))"
    by (simp add: login_nonblank)
  have l2: "trim tok = [] \<longrightarrow> loggedIn (snd (login tok s)) = loggedIn s"
    by (simp add: login_blank)
  have t1: "u = [] \<or> p = [] \<longrightarrow> loggedIn (snd (telescopeLogin u p net s)) = loggedIn s"
    using telescopeLogin_missing [of u p net s] by auto
  have t2: "telescopeLogin u p net s = (Inl e, s') \<longrightarrow> loggedIn s' = loggedIn s"
    using telescopeLogin_flag_throws by blast
  have t3: "u \<noteq> [] \<and> p \<noteq> [] \<and> telescopeLogin u p net s = (Inr b, s') \<longrightarrow>
        loggedIn s' = b \<and>
        (\<exists>resp. net \<lparr> req_url = telescope_login_endpoint, req_method = POST,
                       req_headers = baseHeaders s,
                       req_body = Some (Stringified (telescopeLoginBody u p)) \<rparr> = Inr resp \<and>
                b = (statusCode resp = 200))"
    using telescopeLogin_flag_returns [of u p net s b s'] by blast
  from gate pass l1 l2 t1 t2 t3 show ?thesis by blast
qed

theorem C1_one_shared_login_flag_witness:
  "sendRequest (js ''/x'') (respondWith 200 (Some JNull)) init_session =
     (Inl (Error (js ''Not Logged In.'')), init_session)
   \<and> sendPostRequest (js ''/x'') (js ''{}'') (respondWith 200 (Some JNull)) init_session =
     (Inl (Error (js ''Not Logged In.'')), init_session)
   \<and> sendTelescopeRequest (js ''/x'') (respondWith 200 (Some JNull)) init_session =
     (Inl (Error (js ''Not Logged In!'')), init_session)
   \<and> fst (sendTelescopeRequest (js ''/x'') (respondWith 200 (Some JNull))
        (init_session\<lparr> loggedIn := True \<rparr>)) = Inr JNull
   \<and> loggedIn (snd (login (js ''TOK'') init_session))
   \<and> loggedIn (snd (login (js '' '') (init_session\<lparr> loggedIn := True \<rparr>)))
   \<and> loggedIn (snd (telescopeLogin [] (js ''secret'') (respondWith 200 None)
        (init_session\<lparr> loggedIn := True \<rparr>)))
   \<and> loggedIn (snd (telescopeLogin (js ''user'') (js ''secret'') (rejectWith (NetworkError []))
        (init_session\<lparr> loggedIn := True \<rparr>)))
   \<and> \<not> loggedIn (snd (telescopeLogin (js ''user'') (js ''secret'') (respondWith 401 None)
        (init_session\<lparr> loggedIn := True \<rparr>)))"
proof -
  define s0 where "s0 = init_session\<lparr> loggedIn := True \<rparr>"
  have a: "\<not> loggedIn init_session" by (simp add: init_session_def)
  have b: "trim (js ''TOK'') \<noteq> []" "trim (js '' '') = []"
    by (simp_all add: trim_def js_def isStrWhiteSpaceChar_def)
  have c: "loggedIn s0" by (simp add: s0_def)
  have ne: "js ''user'' \<noteq> []" "js ''secret'' \<noteq> []" by (simp_all add: js_def)
  have t: "toStringValue (telescopeUnoToken s0) = Inr []"
    by (simp add: s0_def init_session_def toStringValue_def)
  have thr: "telescopeLogin (js ''user'') (js ''secret'') (rejectWith (NetworkError [])) s0 =
      (Inl (NetworkError []),
       snd (telescopeLogin (js ''user'') (js ''secret'') (rejectWith (NetworkError [])) s0))"
    by (simp add: telescopeLogin_def rejectWith_def Let_def ne)
  have ret: "telescopeLogin (js ''user'') (js ''secret'') (respondWith 401 None) s0 =
      (Inr False, snd (telescopeLogin (js ''user'') (js ''secret'') (respondWith 401 None) s0))"
    by (simp add: telescopeLogin_def respondWith_def Let_def ne)
  have p1: "sendRequest (js ''/x'') (respondWith 200 (Some JNull)) init_session =
     (Inl (Error (js ''Not Logged In.'')), init_session)
   \<and> sendPostRequest (js ''/x'') (js ''{}'') (respondWith 200 (Some JNull)) init_session =
     (Inl (Error (js ''Not Logged In.'')), init_session)
   \<and> sendTelescopeRequest (js ''/x'') (respondWith 200 (Some JNull)) init_session =
     (Inl (Error (js ''Not Logged In!'')), init_session)
   \<and> loggedIn (snd (login (js ''TOK'') init_session))"
    using a b(1)
      C1_one_shared_login_flag [of init_session "js ''/x''" "respondWith 200 (Some JNull)"
        "js ''{}''" "js ''TOK''" "[]" "[]"]
    by blast
  have p2: "fst (sendTelescopeRequest (js ''/x'') (respondWith 200 (Some JNull)) s0) = Inr JNull"
    using c C1_one_shared_login_flag [of s0 "js ''/x''" "respondWith 200 (Some JNull)"]
    by (simp add: t fst_dispatch_json)
  have p3: "loggedIn (snd (login (js '' '') s0))"
    using b(2) c C1_one_shared_login_flag [of s0 _ _ _ "js '' ''"] by blast
  have p4: "loggedIn (snd (telescopeLogin [] (js ''secret'') (respondWith 200 None) s0))"
    using c C1_one_shared_login_flag [of s0 _ "respondWith 200 None" _ _ "[]" "js ''secret''"]
    by blast
  have p5: "loggedIn (snd (telescopeLogin (js ''user'') (js ''secret'')
      (rejectWith (NetworkError [])) s0))"
    using c thr
      C1_one_shared_login_flag [of s0 _ "rejectWith (NetworkError [])" _ _ "js ''user''"
        "js ''secret''" "NetworkError []"
        "snd (telescopeLogin (js ''user'') (js ''secret'') (rejectWith (NetworkError [])) s0)"]
    by blast
  have p6: "\<not> loggedIn (snd (telescopeLogin (js ''user'') (js ''secret'')
      (respondWith 401 None) s0))"
    using ne ret
      C1_one_shared_login_flag [of s0 _ "respondWith 401 None" _ _ "js ''user''"
        "js ''secret''" _
        "snd (telescopeLogin (js ''user'') (js ''secret'') (respondWith 401 None) s0)" False]
    by blast
  from p1 p2 p3 p4 p5 p6 show ?thesis unfolding s0_def by blast
qed

section \<open>Request dispatcher: the claims\<close>

text \<open>
  Claim C8. For every request that a dispatcher of either backend hands to the network
  and that is answered: a status code of 500 or above fails with the \<open>Error\<close> whose
  message contains the status code in decimal, and the trace ends with the network call,
  so \<open>body.json()\<close> is not called; a status code below 500 with a body that is not valid
  JSON fails with the SyntaxError of \<open>body.json()\<close>, which is no \<open>Error\<close> of the module;
  and a body that is valid JSON is returned as parsed, whatever it says. The same holds
  for the posting dispatcher.
\<close>

theorem C8_response_classification:
  assumes "loggedIn s"
  shows
    "(let rq = \<lparr> req_url = baseUrl @ apiPath @ url, req_method = GET,
                 req_headers = baseHeaders s, req_body = None \<rparr> in
      net rq = Inr resp \<longrightarrow>
        (500 \<le> statusCode resp \<longrightarrow>
           sendRequest url net s =
             (Inl (Error (js ''Received status code: '' @ [0x27] @
                          natToString (statusCode resp) @ [0x27] @
                          js ''. Route may be down or not exist.'')),
              s\<lparr> trace := trace s @ [NetworkCall rq] \<rparr>)) \<and>
        (statusCode resp < 500 \<and> body resp = None \<longrightarrow>
           sendRequest url net s =
             (Inl SyntaxError, s\<lparr> trace := trace s @ [NetworkCall rq, BodyJson] \<rparr>)) \<and>
        (statusCode resp < 500 \<and> body resp = Some j \<longrightarrow>
           sendRequest url net s =
             (Inr j, s\<lparr> trace := trace s @ [NetworkCall rq, BodyJson] \<rparr>)))
     \<and> (toStringValue (telescopeUnoToken s) = Inr t \<longrightarrow>
         (let hs = AList.update (js ''authorization'') (js ''Bearer '' @ t)
                     (baseTelescopeHeaders s);
              rq = \<lparr> req_url = baseTelescopeUrl @ apiTelescopePath @ url, req_method = GET,
                     req_headers = hs, req_body = None \<rparr>;
              s1 = s\<lparr> baseTelescopeHeaders := hs \<rparr> in
          net rq = Inr resp \<longrightarrow>
            (500 \<le> statusCode resp \<longrightarrow>
               sendTelescopeRequest url net s =
                 (Inl (Error (js ''Received status code: '' @ [0x27] @
                              natToString (statusCode resp) @ [0x27] @
                              js ''. Route may be down or not exist.'')),
                  s1\<lparr> trace := trace s @ [NetworkCall rq] \<rparr>)) \<and>
            (statusCode resp < 500 \<and> body resp = None \<longrightarrow>
               sendTelescopeRequest url net s =
                 (Inl SyntaxError, s1\<lparr> trace := trace s @ [NetworkCall rq, BodyJson] \<rparr>)) \<and>
            (statusCode resp < 500 \<and> body resp = Some j \<longrightarrow>
               sendTelescopeRequest url net s =
                 (Inr j, s1\<lparr> trace := trace s @ [NetworkCall rq, BodyJson] \<rparr>))))
     \<and> (let rq = \<lparr> req_url = baseUrl @ apiPath @ url, req_method = POST,
                   req_headers = basePostHeaders s, req_body = Some (Text d) \<rparr> in
        net rq = Inr resp \<longrightarrow>
        (500 \<le> statusCode resp \<longrightarrow>
           sendPostRequest url d net s =
             (Inl (Error (js ''Received status code: '' @ [0x27] @
                          natToString (statusCode resp) @ [0x27] @
                          js ''. Route may be down or not exist.'')),
              s\<lparr> trace := trace s @ [NetworkCall rq] \<rparr>)) \<and>
        (statusCode resp < 500 \<and> body resp = None \<longrightarrow>
           sendPostRequest url d net s =
             (Inl SyntaxError, s\<lparr> trace := trace s @ [NetworkCall rq, BodyJson] \<rparr>)) \<and>
        (statusCode resp < 500 \<and> body resp = Some j \<longrightarrow>
           sendPostRequest url d net s =
             (Inr j, s\<lparr> trace := trace s @ [NetworkCall rq, BodyJson] \<rparr>)))
     \<and> SyntaxError \<noteq> Error m
     \<and> list_all isDecimalDigit (natToString code) \<and> decimalValue (natToString code) = code"
  using assms
  by (simp add: Let_def sendRequest_logged_in sendPostRequest_logged_in
        sendTelescopeRequest_logged_in dispatch_server_error dispatch_not_json dispatch_json
      statusMessage_def natToString_digits decimalValue_natToString)

theorem C8_response_classification_witness:
  "sendRequest (js ''/x'') (respondWith 503 (Some JNull)) (init_session\<lparr> loggedIn := True \<rparr>) =
     (Inl (Error (js ''Received status code: '' @ [0x27] @ js ''503'' @ [0x27] @
                  js ''. Route may be down or not exist.'')),
      init_session\<lparr> loggedIn := True,
        trace := [NetworkCall \<lparr> req_url = baseUrl @ apiPath @ js ''/x'', req_method = GET,
                                req_headers = baseHeaders init_session, req_body = None \<rparr>] \<rparr>)
   \<and> fst (sendRequest (js ''/x'') (respondWith 200 None) (init_session\<lparr> loggedIn := True \<rparr>)) =
     Inl SyntaxError
   \<and> fst (sendRequest (js ''/x'') (respondWith 404 (Some (JObj [(js ''status'', JStr (js ''error''))])))
        (init_session\<lparr> loggedIn := True \<rparr>)) = Inr (JObj [(js ''status'', JStr (js ''error''))])
   \<and> fst (sendTelescopeRequest (js ''/x'') (respondWith 500 None)
        (init_session\<lparr> loggedIn := True \<rparr>)) =
     Inl (Error (js ''Received status code: '' @ [0x27] @ js ''500'' @ [0x27] @
                 js ''. Route may be down or not exist.''))
   \<and> fst (sendTelescopeRequest (js ''/x'') (respondWith 200 None)
        (init_session\<lparr> loggedIn := True \<rparr>)) = Inl SyntaxError
   \<and> fst (sendTelescopeRequest (js ''/x'') (respondWith 200 (Some JNull))
        (init_session\<lparr> loggedIn := True \<rparr>)) = Inr JNull
   \<and> fst (sendPostRequest (js ''/x'') (js ''{}'') (respondWith 502 None)
        (init_session\<lparr> loggedIn := True \<rparr>)) =
     Inl (Error (js ''Received status code: '' @ [0x27] @ js ''502'' @ [0x27] @
                 js ''. Route may be down or not exist.''))
   \<and> fst (sendPostRequest (js ''/x'') (js ''{}'') (respondWith 200 None)
        (init_session\<lparr> loggedIn := True \<rparr>)) = Inl SyntaxError
   \<and> fst (sendPostRequest (js ''/x'') (js ''{}'') (respondWith 200 (Some JNull))
        (init_session\<lparr> loggedIn := True \<rparr>)) = Inr JNull"
proof -
  define s0 where "s0 = init_session\<lparr> loggedIn := True \<rparr>"
  have li: "loggedIn s0" by (simp add: s0_def)
  have n: "natToString 503 = js ''503''" "natToString 500 = js ''500''"
    "natToString 502 = js ''502''"
    by (simp_all add: natToString.simps js_def)
  have t: "trace s0 = []" by (simp add: s0_def init_session_def)
  have u: "toStringValue (telescopeUnoToken s0) = Inr []"
    by (simp add: s0_def init_session_def toStringValue_def)
  have h: "baseHeaders s0 = baseHeaders init_session" by (simp add: s0_def)
  have "sendRequest (js ''/x'') (respondWith 503 (Some JNull)) s0 =
     (Inl (Error (js ''Received status code: '' @ [0x27] @ js ''503'' @ [0x27] @
                  js ''. Route may be down or not exist.'')),
      s0\<lparr> trace := [NetworkCall \<lparr> req_url = baseUrl @ apiPath @ js ''/x'', req_method = GET,
                                req_headers = baseHeaders init_session, req_body = None \<rparr>] \<rparr>)
   \<and> fst (sendTelescopeRequest (js ''/x'') (respondWith 500 None) s0) =
     Inl (Error (js ''Received status code: '' @ [0x27] @ js ''500'' @ [0x27] @
                 js ''. Route may be down or not exist.''))
   \<and> fst (sendPostRequest (js ''/x'') (js ''{}'') (respondWith 502 None) s0) =
     Inl (Error (js ''Received status code: '' @ [0x27] @ js ''502'' @ [0x27] @
                 js ''. Route may be down or not exist.''))"
    using C8_response_classification [OF li, of "js ''/x''" "respondWith 503 (Some JNull)"
        "\<lparr> statusCode = 503, body = Some JNull \<rparr>"]
      C8_response_classification [OF li, of "js ''/x''" "respondWith 500 None"
        "\<lparr> statusCode = 500, body = None \<rparr>" _ "[]"]
      C8_response_classification [OF li, of "js ''/x''" "respondWith 502 None"
        "\<lparr> statusCode = 502, body = None \<rparr>" _ _ "js ''{}''"]
    by (simp add: Let_def respondWith_def n t u h)
  moreover have "fst (sendRequest (js ''/x'') (respondWith 200 None) s0) = Inl SyntaxError
   \<and> fst (sendTelescopeRequest (js ''/x'') (respondWith 200 None) s0) = Inl SyntaxError
   \<and> fst (sendPostRequest (js ''/x'') (js ''{}'') (respondWith 200 None) s0) = Inl SyntaxError"
    using C8_response_classification [OF li, of "js ''/x''" "respondWith 200 None"
        "\<lparr> statusCode = 200, body = None \<rparr>" _ "[]" "js ''{}''"]
    by (simp add: Let_def respondWith_def u)
  moreover have "fst (sendRequest (js ''/x'')
        (respondWith 404 (Some (JObj [(js ''status'', JStr (js ''error''))]))) s0) =
      Inr (JObj [(js ''status'', JStr (js ''error''))])"
    using C8_response_classification [OF li, of "js ''/x''"
        "respondWith 404 (Some (JObj [(js ''status'', JStr (js ''error''))]))"
        "\<lparr> statusCode = 404, body = Some (JObj [(js ''status'', JStr (js ''error''))]) \<rparr>"
        "JObj [(js ''status'', JStr (js ''error''))]"]
    by (simp add: Let_def respondWith_def)
  moreover have "fst (sendTelescopeRequest (js ''/x'') (respondWith 200 (Some JNull)) s0) =
      Inr JNull
   \<and> fst (sendPostRequest (js ''/x'') (js ''{}'') (respondWith 200 (Some JNull)) s0) = Inr JNull"
    using C8_response_classification [OF li, of "js ''/x''" "respondWith 200 (Some JNull)"
        "\<lparr> statusCode = 200, body = Some JNull \<rparr>" JNull "[]" "js ''{}''"]
    by (simp add: Let_def respondWith_def u)
  ultimately show ?thesis unfolding s0_def by simp
qed

section \<open>Platform validation over the whole enumeration: the claim\<close>

text \<open>
  Claim C10. Platform validation accepts every member of the platform enumeration, the
  sentinel tags \<open>all\<close> and \<open>_\<close> included: the only error \<open>checkForValidPlatform\<close> has
  for a member is the numerical-ID error of \<open>uno\<close>. With platform \<open>all\<close> or \<open>_\<close>
  resolution succeeds for every handle and either value of the Steam flag, keeps handle
  and platform and gives the lookup kind \<open>gamer\<close>; and every operation that takes a
  platform goes on to its dispatcher with a path that has the sentinel as its platform
  segment. No operation restricts the platforms it accepts.
\<close>

theorem C10_sentinel_platforms_accepted:
  assumes "plat = platforms_All \<or> plat = platforms_NULL"
  shows
   "(\<forall>q \<in> set platforms_values.
       checkForValidPlatform q (Some h) =
         (if h \<noteq> [] \<and> isNaN_Number h \<and> q = platforms_Uno
          then Inl (Error generics_UNO_NO_NUMERICAL_ID) else Inr ()))
   \<and> platforms_All \<in> set platforms_values \<and> platforms_NULL \<in> set platforms_values
   \<and> set platforms_values =
       {js ''all'', js ''acti'', js ''battle'', js ''psn'', js ''steam'', js ''uno'', js ''xbl'',
        js ''ios'', js ''_''}
   \<and> mapGamertagToPlatform gt plat ss =
       Inr \<lparr> r_gamertag = gt, r_platform = plat, r_lookupType = js ''gamer'' \<rparr>
   \<and> WZ_fullData gt plat net s =
         sendRequest
           (js ''/stats/cod/v1/title/mw/platform/'' @ plat @ js ''/gamer/'' @ gt @
            js ''/profile/type/wz'') net s
   \<and> WZ_combatHistory gt plat net s =
         sendRequest
           (js ''/crm/cod/v2/title/mw/platform/'' @ plat @ js ''/gamer/'' @ gt @
            js ''/matches/wz/start/0/end/0/details'') net s
   \<and> WZ_combatHistoryWithDate gt startTime endTime plat net s =
         sendRequest
           (js ''/crm/cod/v2/title/mw/platform/'' @ plat @ js ''/gamer/'' @ gt @
            js ''/matches/wz/start/'' @ numberToString startTime @ js ''/end/'' @
            numberToString endTime @ js ''/details'') net s
   \<and> WZ_breakdown gt plat net s =
         sendRequest
           (js ''/crm/cod/v2/title/mw/platform/'' @ plat @ js ''/gamer/'' @ gt @
            js ''/matches/wz/start/0/end/0'') net s
   \<and> WZ_breakdownWithDate gt startTime endTime plat net s =
         sendRequest
           (js ''/crm/cod/v2/title/mw/platform/'' @ plat @ js ''/gamer/'' @ gt @
            js ''/matches/wz/start/'' @ numberToString startTime @ js ''/end/'' @
            numberToString endTime) net s
   \<and> WZ_matchInfo matchId plat net s =
         sendRequest
           (js ''/crm/cod/v2/title/mw/platform/'' @ plat @ js ''/fullMatch/wz/'' @ matchId @
            js ''/en'') net s
   \<and> MW_fullData gt plat net s =
         sendRequest
           (js ''/stats/cod/v1/title/mw/platform/'' @ plat @ js ''/gamer/'' @ gt @
            js ''/profile/type/mp'') net s
   \<and> MW_combatHistory gt plat net s =
         sendRequest
           (js ''/crm/cod/v2/title/mw/platform/'' @ plat @ js ''/gamer/'' @ gt @
            js ''/matches/mp/start/0/end/0/details'') net s
   \<and> MW_combatHistoryWithDate gt startTime endTime plat net s =
         sendRequest
           (js ''/crm/cod/v2/title/mw/platform/'' @ plat @ js ''/gamer/'' @ gt @
            js ''/matches/mp/start/'' @ numberToString startTime @ js ''/end/'' @
            numberToString endTime @ js ''/details'') net s
   \<and> MW_breakdown gt plat net s =
         sendRequest
           (js ''/crm/cod/v2/title/mw/platform/'' @ plat @ js ''/gamer/'' @ gt @
            js ''/matches/mp/start/0/end/0'') net s
   \<and> MW_breakdownWithDate gt startTime endTime plat net s =
         sendRequest
           (js ''/crm/cod/v2/title/mw/platform/'' @ plat @ js ''/gamer/'' @ gt @
            js ''/matches/mp/start/'' @ numberToString startTime @ js ''/end/'' @
            numberToString endTime) net s
   \<and> MW_matchInfo matchId plat net s =
         sendRequest
           (js ''/crm/cod/v2/title/mw/platform/'' @ plat @ js ''/fullMatch/wz/'' @ matchId @
            js ''/en'') net s
   \<and> MW_seasonloot gt plat net s =
         sendRequest
           (js ''/loot/title/mw/platform/'' @ plat @ js ''/gamer/'' @ gt @ js ''/status/en'') net s
   \<and> MW_mapList plat net s =
         sendRequest
           (js ''/ce/v1/title/mw/platform/'' @ plat @
            js ''/gameType/mp/communityMapData/availability'') net s
   \<and> CW_fullData gt plat net s =
         sendRequest
           (js ''/stats/cod/v1/title/cw/platform/'' @ plat @ js ''/gamer/'' @ gt @
            js ''/profile/type/mp'') net s
   \<and> CW_combatHistory gt plat net s =
         sendRequest
           (js ''/crm/cod/v2/title/cw/platform/'' @ plat @ js ''/gamer/'' @ gt @
            js ''/matches/mp/start/0/end/0/details'') net s
   \<and> CW_combatHistoryWithDate gt startTime endTime plat net s =
         sendRequest
           (js ''/crm/cod/v2/title/cw/platform/'' @ plat @ js ''/gamer/'' @ gt @
            js ''/matches/mp/start/'' @ numberToString startTime @ js ''/end/'' @
            numberToString endTime @ js ''/details'') net s
   \<and> CW_breakdown gt plat net s =
         sendRequest
           (js ''/crm/cod/v2/title/cw/platform/'' @ plat @ js ''/gamer/'' @ gt @
            js ''/matches/mp/start/0/end/0'') net s
   \<and> CW_breakdownWithDate gt startTime endTime plat net s =
         sendRequest
           (js ''/crm/cod/v2/title/cw/platform/'' @ plat @ js ''/gamer/'' @ gt @
            js ''/matches/mp/start/'' @ numberToString startTime @ js ''/end/'' @
            numberToString endTime) net s
   \<and> CW_seasonloot gt plat net s =
         sendRequest
           (js ''/loot/title/cw/platform/'' @ plat @ js ''/gamer/'' @ gt @ js ''/status/en'') net s
   \<and> CW_mapList plat net s =
         sendRequest
           (js ''/ce/v1/title/cw/platform/'' @ plat @
            js ''/gameType/mp/communityMapData/availability'') net s
   \<and> CW_matchInfo matchId plat net s =
         sendRequest
           (js ''/crm/cod/v2/title/cw/platform/'' @ plat @ js ''/fullMatch/wz/'' @ matchId @
            js ''/en'') net s
   \<and> VG_fullData gt plat net s =
         sendRequest
           (js ''/stats/cod/v1/title/vg/platform/'' @ plat @ js ''/gamer/'' @ gt @
            js ''/profile/type/mp'') net s
   \<and> VG_combatHistory gt plat net s =
         sendRequest
           (js ''/crm/cod/v2/title/vg/platform/'' @ plat @ js ''/gamer/'' @ gt @
            js ''/matches/mp/start/0/end/0/details'') net s
   \<and> VG_combatHistoryWithDate gt startTime endTime plat net s =
         sendRequest
           (js ''/crm/cod/v2/title/vg/platform/'' @ plat @ js ''/gamer/'' @ gt @
            js ''/matches/mp/start/'' @ numberToString startTime @ js ''/end/'' @
            numberToString endTime @ js ''/details'') net s
   \<and> VG_breakdown gt plat net s =
         sendRequest
           (js ''/crm/cod/v2/title/vg/platform/'' @ plat @ js ''/gamer/'' @ gt @
            js ''/matches/mp/start/0/end/0'') net s
   \<and> VG_breakdownWithDate gt startTime endTime plat net s =
         sendRequest
           (js ''/crm/cod/v2/title/vg/platform/'' @ plat @ js ''/gamer/'' @ gt @
            js ''/matches/mp/start/'' @ numberToString startTime @ js ''/end/'' @
            numberToString endTime) net s
   \<and> VG_seasonloot gt plat net s =
         sendRequest
           (js ''/loot/title/vg/platform/'' @ plat @ js ''/gamer/'' @ gt @ js ''/status/en'') net s
   \<and> VG_mapList plat net s =
         sendRequest
           (js ''/ce/v1/title/vg/platform/'' @ plat @
            js ''/gameType/mp/communityMapData/availability'') net s
   \<and> VG_matchInfo matchId plat net s =
         sendRequest
           (js ''/crm/cod/v2/title/vg/platform/'' @ plat @ js ''/fullMatch/wz/'' @ matchId @
            js ''/en'') net s
   \<and> SHOP_battlePassLoot title season plat net s =
         sendRequest
           (js ''/loot/title/'' @ title @ js ''/platform/'' @ plat @
            js ''/list/loot_season_'' @ numberToString season @ js ''/en'') net s
   \<and> USER_friendFeed gt plat net s =
         sendRequest
           (js ''/userfeed/v1/friendFeed/platform/'' @ plat @ js ''/gamer/'' @ gt @
            js ''/friendFeedEvents/en'') net s
   \<and> USER_codPoints gt plat net s =
         sendRequest
           (js ''/inventory/v1/title/mw/platform/'' @ plat @ js ''/gamer/'' @ gt @
            js ''/currency'') net s
   \<and> USER_connectedAccounts gt plat net s =
         sendRequest
           (js ''/crm/cod/v2/accounts/platform/'' @ plat @ js ''/gamer/'' @ gt) net s
   \<and> USER_settings gt plat net s =
         sendRequest
           (js ''/preferences/v1/platform/'' @ plat @ js ''/gamer/'' @ gt @ js ''/list'') net s
   \<and> USER_friendAction gt plat action net s =
         sendPostRequest
           (js ''/codfriends/v1/'' @ action @ js ''/'' @ plat @ js ''/gamer/'' @ gt) (js ''{}'') net s
   \<and> ALT_search gt plat net s =
         sendRequest
           (js ''/crm/cod/v2/platform/'' @ plat @ js ''/username/'' @ gt @ js ''/search'') net s"
proof -
  have members: "\<forall>q \<in> set platforms_values.
       checkForValidPlatform q (Some h) =
         (if h \<noteq> [] \<and> isNaN_Number h \<and> q = platforms_Uno
          then Inl (Error generics_UNO_NO_NUMERICAL_ID) else Inr ())"
    by (simp add: checkForValidPlatform_member)
  have enum: "platforms_All \<in> set platforms_values" "platforms_NULL \<in> set platforms_values"
    "set platforms_values =
       {js ''all'', js ''acti'', js ''battle'', js ''psn'', js ''steam'', js ''uno'', js ''xbl'',
        js ''ios'', js ''_''}"
    by (simp_all add: platforms_values_def enum_defs)
  show ?thesis
    by (intro conjI members enum sentinel_resolution [OF assms]
      WZ_fullData_sentinel [OF assms]
      WZ_combatHistory_sentinel [OF assms]
      WZ_combatHistoryWithDate_sentinel [OF assms]
      WZ_breakdown_sentinel [OF assms]
      WZ_breakdownWithDate_sentinel [OF assms]
      WZ_matchInfo_sentinel [OF assms]
      MW_fullData_sentinel [OF assms]
      MW_combatHistory_sentinel [OF assms]
      MW_combatHistoryWithDate_sentinel [OF assms]
      MW_breakdown_sentinel [OF assms]
      MW_breakdownWithDate_sentinel [OF assms]
      MW_matchInfo_sentinel [OF assms]
      MW_seasonloot_sentinel [OF assms]
      MW_mapList_sentinel [OF assms]
      CW_fullData_sentinel [OF assms]
      CW_combatHistory_sentinel [OF assms]
      CW_combatHistoryWithDate_sentinel [OF assms]
      CW_breakdown_sentinel [OF assms]
      CW_breakdownWithDate_sentinel [OF assms]
      CW_seasonloot_sentinel [OF assms]
      CW_mapList_sentinel [OF assms]
      CW_matchInfo_sentinel [OF assms]
      VG_fullData_sentinel [OF assms]
      VG_combatHistory_sentinel [OF assms]
      VG_combatHistoryWithDate_sentinel [OF assms]
      VG_breakdown_sentinel [OF assms]
      VG_breakdownWithDate_sentinel [OF assms]
      VG_seasonloot_sentinel [OF assms]
      VG_mapList_sentinel [OF assms]
      VG_matchInfo_sentinel [OF assms]
      SHOP_battlePassLoot_sentinel [OF assms]
      USER_friendFeed_sentinel [OF assms]
      USER_codPoints_sentinel [OF assms]
      USER_connectedAccounts_sentinel [OF assms]
      USER_settings_sentinel [OF assms]
      USER_friendAction_sentinel [OF assms]
      ALT_search_sentinel [OF assms])
qed

theorem C10_sentinel_platforms_accepted_witness:
  "mapGamertagToPlatform (js ''Player'') (js ''all'') False =
     Inr \<lparr> r_gamertag = js ''Player'', r_platform = js ''all'', r_lookupType = js ''gamer'' \<rparr>
   \<and> MW_fullData (js ''Player'') (js ''all'') (respondWith 200 (Some JNull)) init_session =
     sendRequest (js ''/stats/cod/v1/title/mw/platform/all/gamer/Player/profile/type/mp'')
       (respondWith 200 (Some JNull)) init_session
   \<and> checkForValidPlatform (js ''_'') (Some (js ''Player'')) = Inr ()"
proof -
  have a: "js ''all'' = platforms_All \<or> js ''all'' = platforms_NULL"
    by (simp add: platforms_All_def)
  have b: "js ''_'' \<in> set platforms_values"
    by (simp add: platforms_values_def enum_defs)
  have c: "js ''_'' \<noteq> platforms_Uno"
    by (simp add: platforms_Uno_def js_def)
  from C10_sentinel_platforms_accepted [OF a, of "js ''Player''" "js ''Player''" False
      "respondWith 200 (Some JNull)" init_session] b c
  show ?thesis by (simp add: js_def)
qed

end
